theory Spec2Isabelle
  imports Main
begin

section \<open>Dynamic JSON values and the string helpers the proxy uses\<close>

text \<open>
  The proxy keeps request and response payloads as Go values of type \<^verbatim>\<open>interface{}\<close>,
  produced by \<^verbatim>\<open>json.Unmarshal\<close> or by a conversion \<^verbatim>\<open>string(bodyBytes)\<close>. The dynamic
  types that occur are nil, bool, float64, string, slices and string-keyed maps. A raw
  body kept as text and a decoded JSON string are both Go strings, hence both
  \<open>JString\<close>. A Go string is a sequence of bytes, which is what \<^typ>\<open>string\<close> is here.
  No claim reads a number, so a number keeps its literal text.
\<close>

datatype json =
    JNull
  | JBool bool
  | JNumber string
  | JString string
  | JArray "json list"
  | JObject "(string \<times> json) list"

text \<open>
  \<^verbatim>\<open>json.Unmarshal(data, &v)\<close> with \<^verbatim>\<open>v interface{}\<close> belongs to the Go library, not to
  the repository: it is a parameter of the model, \<open>None\<close> standing for a returned error.
\<close>

type_synonym decoder = "string \<Rightarrow> json option"

text \<open>
  \<^verbatim>\<open>json.Unmarshal(data, &chunk)\<close> with \<^verbatim>\<open>chunk map[string]interface{}\<close> (a nil map before
  the call): an object fills the map, \<^verbatim>\<open>null\<close> leaves the nil map and reports no error,
  every other JSON value is a type error, and a syntax error is an error.
\<close>

definition Unmarshal_map :: "decoder \<Rightarrow> string \<Rightarrow> (string \<times> json) list option" where
  "Unmarshal_map u data =
     (case u data of
        None \<Rightarrow> None
      | Some JNull \<Rightarrow> Some []
      | Some (JObject m) \<Rightarrow> Some m
      | Some _ \<Rightarrow> None)"

text \<open>
  Indexing a Go map gives the nil interface for an absent key; the three comma-ok type
  assertions of \<^verbatim>\<open>processStreamingResponse\<close> then fail on nil as on any other dynamic
  type than the asserted one.
\<close>

definition as_array :: "json option \<Rightarrow> json list option" where
  "as_array v = (case v of Some (JArray xs) \<Rightarrow> Some xs | _ \<Rightarrow> None)"

definition as_object :: "json option \<Rightarrow> (string \<times> json) list option" where
  "as_object v = (case v of Some (JObject m) \<Rightarrow> Some m | _ \<Rightarrow> None)"

definition as_string :: "json option \<Rightarrow> string option" where
  "as_string v = (case v of Some (JString s) \<Rightarrow> Some s | _ \<Rightarrow> None)"

text \<open>\<^verbatim>\<open>strings.HasPrefix\<close>, \<^verbatim>\<open>strings.TrimPrefix\<close> and \<^verbatim>\<open>strings.Contains\<close>.\<close>

definition HasPrefix :: "string \<Rightarrow> string \<Rightarrow> bool" where
  "HasPrefix s pre = (length pre \<le> length s \<and> take (length pre) s = pre)"

definition TrimPrefix :: "string \<Rightarrow> string \<Rightarrow> string" where
  "TrimPrefix s pre = (if HasPrefix s pre then drop (length pre) s else s)"

fun Contains :: "string \<Rightarrow> string \<Rightarrow> bool" where
  "Contains [] substr = (substr = [])"
| "Contains (c # cs) substr = (HasPrefix (c # cs) substr \<or> Contains cs substr)"

text \<open>
  \<^verbatim>\<open>strings.Split(s, "\n")\<close>: the pieces between the newlines, one more than there are
  newlines, so the empty text gives one empty line.
\<close>

fun Split_newline :: "string \<Rightarrow> string list" where
  "Split_newline [] = [[]]"
| "Split_newline (c # cs) =
     (if c = CHR ''\<newline>'' then [] # Split_newline cs
      else (case Split_newline cs of
              [] \<Rightarrow> [[c]]
            | l # ls \<Rightarrow> (c # l) # ls))"

section \<open>The Stream Reconstructor: \<^verbatim>\<open>processStreamingResponse\<close>\<close>

text \<open>The body of the innermost block: what one decoded chunk adds to \<^verbatim>\<open>fullContent\<close>.\<close>

definition chunk_step :: "(string \<times> json) list \<Rightarrow> string \<Rightarrow> string" where
  "chunk_step chunk fullContent =
     (case as_array (map_of chunk ''choices'') of
        None \<Rightarrow> fullContent
      | Some choices \<Rightarrow>
          if 0 < length choices then
            (case as_object (Some (choices ! 0)) of
               None \<Rightarrow> fullContent
             | Some choice \<Rightarrow>
                 (let fc1 =
                    (case as_object (map_of choice ''delta'') of
                       None \<Rightarrow> fullContent
                     | Some delta \<Rightarrow>
                         (case as_string (map_of delta ''content'') of
                            None \<Rightarrow> fullContent
                          | Some content \<Rightarrow> fullContent @ content))
                  in (case as_object (map_of choice ''message'') of
                        None \<Rightarrow> fc1
                      | Some message \<Rightarrow>
                          (case as_string (map_of message ''content'') of
                             None \<Rightarrow> fc1
                           | Some content \<Rightarrow> fc1 @ content))))
          else fullContent)"

text \<open>One iteration of the \<^verbatim>\<open>for _, line := range lines\<close> loop.\<close>

definition line_step :: "decoder \<Rightarrow> string \<Rightarrow> string \<Rightarrow> string" where
  "line_step u fullContent line =
     (if HasPrefix line ''data: '' then
        (let data = TrimPrefix line ''data: '' in
         if data = ''[DONE]'' then fullContent
         else (case Unmarshal_map u data of
                 None \<Rightarrow> fullContent
               | Some chunk \<Rightarrow> chunk_step chunk fullContent))
      else fullContent)"

fun lines_loop :: "decoder \<Rightarrow> string \<Rightarrow> string list \<Rightarrow> string" where
  "lines_loop u fullContent [] = fullContent"
| "lines_loop u fullContent (line # lines) = lines_loop u (line_step u fullContent line) lines"

text \<open>The value built by the final \<^verbatim>\<open>return\<close>.\<close>

definition simplified_response :: "string \<Rightarrow> json" where
  "simplified_response fullContent =
     JObject [(''choices'',
       JArray [JObject [(''message'',
         JObject [(''role'', JString ''assistant''), (''content'', JString fullContent)])]])]"

definition processStreamingResponse :: "decoder \<Rightarrow> string \<Rightarrow> json" where
  "processStreamingResponse u responseText =
     simplified_response (lines_loop u [] (Split_newline responseText))"

section \<open>A reference decoder for the decoder parameter\<close>

text \<open>
  The theorems below hold for every decoder. To evaluate the model on concrete bodies a
  decoder is needed; \<open>ref_Unmarshal\<close> is one, for the JSON grammar of RFC 8259 without
  \<^verbatim>\<open>\u\<close> escapes (it answers \<open>None\<close> on them). Like Go's scanner it is a state machine
  over the bytes with an explicit stack of open arrays and objects; a repeated key keeps
  its last value, as a Go map does.
\<close>

datatype token =
    TLBrace | TRBrace | TLBrack | TRBrack | TColon | TComma
  | TStr string | TWord string

datatype scan_mode = Idle | InStr string | InEsc string | InWord string

definition is_space :: "char \<Rightarrow> bool" where
  "is_space c = (c = CHR '' '' \<or> c = CHR 0x09 \<or> c = CHR ''\<newline>'' \<or> c = CHR 0x0D)"

definition is_digit :: "char \<Rightarrow> bool" where
  "is_digit c = (c \<in> set ''0123456789'')"

definition is_word_char :: "char \<Rightarrow> bool" where
  "is_word_char c = (c \<in> set ''0123456789+-.eEaflnrstu'')"

definition punct :: "char \<Rightarrow> token option" where
  "punct c =
     (if c = CHR ''{'' then Some TLBrace else if c = CHR ''}'' then Some TRBrace
      else if c = CHR ''['' then Some TLBrack else if c = CHR '']'' then Some TRBrack
      else if c = CHR '':'' then Some TColon else if c = CHR '','' then Some TComma
      else None)"

definition unescape :: "char \<Rightarrow> char option" where
  "unescape c =
     (if c = CHR 0x22 \<or> c = CHR 0x5C \<or> c = CHR ''/'' then Some c
      else if c = CHR ''b'' then Some (CHR 0x08)
      else if c = CHR ''f'' then Some (CHR 0x0C)
      else if c = CHR ''n'' then Some (CHR ''\<newline>'')
      else if c = CHR ''r'' then Some (CHR 0x0D)
      else if c = CHR ''t'' then Some (CHR 0x09)
      else None)"

fun scan :: "scan_mode \<Rightarrow> string \<Rightarrow> token list option" where
  "scan Idle [] = Some []"
| "scan Idle (c # cs) =
     (if is_space c then scan Idle cs
      else if c = CHR 0x22 then scan (InStr []) cs
      else if is_word_char c then scan (InWord [c]) cs
      else (case punct c of
              None \<Rightarrow> None
            | Some t \<Rightarrow> map_option ((#) t) (scan Idle cs)))"
| "scan (InStr acc) [] = None"
| "scan (InStr acc) (c # cs) =
     (if c = CHR 0x22 then map_option ((#) (TStr acc)) (scan Idle cs)
      else if c = CHR 0x5C then scan (InEsc acc) cs
      else if (of_char c :: nat) < 32 then None
      else scan (InStr (acc @ [c])) cs)"
| "scan (InEsc acc) [] = None"
| "scan (InEsc acc) (c # cs) =
     (case unescape c of
        None \<Rightarrow> None
      | Some d \<Rightarrow> scan (InStr (acc @ [d])) cs)"
| "scan (InWord acc) [] = Some [TWord acc]"
| "scan (InWord acc) (c # cs) =
     (if is_word_char c then scan (InWord (acc @ [c])) cs
      else if is_space c then map_option ((#) (TWord acc)) (scan Idle cs)
      else (case punct c of
              None \<Rightarrow> None
            | Some t \<Rightarrow> map_option (\<lambda>ts. TWord acc # t # ts) (scan Idle cs)))"

text \<open>A bare word is a literal or a number: \<^verbatim>\<open>-?(0|[1-9][0-9]*)(\.[0-9]+)?([eE][+-]?[0-9]+)?\<close>.\<close>

fun number_exp :: "string \<Rightarrow> bool" where
  "number_exp [] = True"
| "number_exp (e # r) =
     ((e = CHR ''e'' \<or> e = CHR ''E'') \<and>
      (let d = (case r of [] \<Rightarrow> [] | s # t \<Rightarrow> if s = CHR ''+'' \<or> s = CHR ''-'' then t else r)
       in d \<noteq> [] \<and> list_all is_digit d))"

fun number_frac :: "string \<Rightarrow> bool" where
  "number_frac (p # d # r) =
     (if p = CHR ''.'' then is_digit d \<and> number_exp (dropWhile is_digit r)
      else number_exp (p # d # r))"
| "number_frac r = number_exp r"

fun number_int :: "string \<Rightarrow> bool" where
  "number_int [] = False"
| "number_int (d # r) =
     (if d = CHR ''0'' then number_frac r
      else is_digit d \<and> number_frac (dropWhile is_digit r))"

definition valid_number :: "string \<Rightarrow> bool" where
  "valid_number s = number_int (case s of [] \<Rightarrow> [] | c # r \<Rightarrow> if c = CHR ''-'' then r else s)"

definition word_value :: "string \<Rightarrow> json option" where
  "word_value w =
     (if w = ''null'' then Some JNull
      else if w = ''true'' then Some (JBool True)
      else if w = ''false'' then Some (JBool False)
      else if valid_number w then Some (JNumber w)
      else None)"

datatype frame = InArr "json list" | InObj "(string \<times> json) list" string

datatype pstate =
    SValue "frame list"
  | SArrFirst "frame list"
  | SObjFirst "frame list"
  | SObjKey "(string \<times> json) list" "frame list"
  | SColon "(string \<times> json) list" string "frame list"
  | SArrNext "json list" "frame list"
  | SObjNext "(string \<times> json) list" "frame list"
  | SDone json

fun upsert :: "string \<Rightarrow> json \<Rightarrow> (string \<times> json) list \<Rightarrow> (string \<times> json) list" where
  "upsert k v [] = [(k, v)]"
| "upsert k v ((k', v') # m) = (if k = k' then (k, v) # m else (k', v') # upsert k v m)"

fun place :: "json \<Rightarrow> frame list \<Rightarrow> pstate" where
  "place v [] = SDone v"
| "place v (InArr xs # fs) = SArrNext (xs @ [v]) fs"
| "place v (InObj m k # fs) = SObjNext (upsert k v m) fs"

fun begin_value :: "frame list \<Rightarrow> token \<Rightarrow> pstate option" where
  "begin_value fs TLBrack = Some (SArrFirst fs)"
| "begin_value fs TLBrace = Some (SObjFirst fs)"
| "begin_value fs (TStr s) = Some (place (JString s) fs)"
| "begin_value fs (TWord w) = map_option (\<lambda>v. place v fs) (word_value w)"
| "begin_value fs _ = None"

fun pstep :: "pstate \<Rightarrow> token \<Rightarrow> pstate option" where
  "pstep (SValue fs) t = begin_value fs t"
| "pstep (SArrFirst fs) t =
     (if t = TRBrack then Some (place (JArray []) fs) else begin_value (InArr [] # fs) t)"
| "pstep (SObjFirst fs) t =
     (case t of TRBrace \<Rightarrow> Some (place (JObject []) fs)
              | TStr k \<Rightarrow> Some (SColon [] k fs)
              | _ \<Rightarrow> None)"
| "pstep (SObjKey m fs) t = (case t of TStr k \<Rightarrow> Some (SColon m k fs) | _ \<Rightarrow> None)"
| "pstep (SColon m k fs) t = (case t of TColon \<Rightarrow> Some (SValue (InObj m k # fs)) | _ \<Rightarrow> None)"
| "pstep (SArrNext xs fs) t =
     (case t of TComma \<Rightarrow> Some (SValue (InArr xs # fs))
              | TRBrack \<Rightarrow> Some (place (JArray xs) fs)
              | _ \<Rightarrow> None)"
| "pstep (SObjNext m fs) t =
     (case t of TComma \<Rightarrow> Some (SObjKey m fs)
              | TRBrace \<Rightarrow> Some (place (JObject m) fs)
              | _ \<Rightarrow> None)"
| "pstep (SDone v) t = None"

fun prun :: "pstate \<Rightarrow> token list \<Rightarrow> json option" where
  "prun st [] = (case st of SDone v \<Rightarrow> Some v | _ \<Rightarrow> None)"
| "prun st (t # ts) = (case pstep st t of None \<Rightarrow> None | Some st' \<Rightarrow> prun st' ts)"

definition ref_Unmarshal :: decoder where
  "ref_Unmarshal s = (case scan Idle s of None \<Rightarrow> None | Some ts \<Rightarrow> prun (SValue []) ts)"

section \<open>HTTP messages, call context and the process state\<close>

text \<open>
  \<^verbatim>\<open>http.Header\<close> is \<^verbatim>\<open>map[string][]string\<close> with canonical keys; reading an absent key
  gives the nil slice. \<^verbatim>\<open>Header.Get\<close> canonicalises its argument
  (\<^verbatim>\<open>textproto.CanonicalMIMEHeaderKey\<close>: first letter and every letter after a hyphen in
  upper case, the rest in lower case; a key with a byte that is not a token byte is left
  alone) and returns the first value, or the empty string when there is none.
\<close>

type_synonym Header = "string \<Rightarrow> string list"

definition to_upper :: "char \<Rightarrow> char" where
  "to_upper c = (if c \<in> set ''abcdefghijklmnopqrstuvwxyz'' then char_of (of_char c - (32::nat)) else c)"

definition to_lower :: "char \<Rightarrow> char" where
  "to_lower c = (if c \<in> set ''ABCDEFGHIJKLMNOPQRSTUVWXYZ'' then char_of (of_char c + (32::nat)) else c)"

definition is_token_byte :: "char \<Rightarrow> bool" where
  "is_token_byte c =
     (c \<in> set ''abcdefghijklmnopqrstuvwxyzABCDEFGHIJKLMNOPQRSTUVWXYZ0123456789''
      \<or> c \<in> set [CHR ''!'', CHR ''#'', CHR ''$'', CHR ''%'', CHR ''&'', CHR 0x27, CHR ''*'',
                  CHR ''+'', CHR ''-'', CHR ''.'', CHR ''^'', CHR ''_'', CHR 0x60, CHR ''|'',
                  CHR ''~''])"

fun canonical :: "bool \<Rightarrow> string \<Rightarrow> string" where
  "canonical upper [] = []"
| "canonical upper (c # cs) =
     (if upper then to_upper c else to_lower c) # canonical (c = CHR ''-'') cs"

definition CanonicalMIMEHeaderKey :: "string \<Rightarrow> string" where
  "CanonicalMIMEHeaderKey k = (if list_all is_token_byte k then canonical True k else k)"

definition Get :: "Header \<Rightarrow> string \<Rightarrow> string" where
  "Get h key = (case h (CanonicalMIMEHeaderKey key) of [] \<Rightarrow> [] | v # _ \<Rightarrow> v)"

text \<open>
  A body stream: the bytes \<^verbatim>\<open>io.ReadAll\<close> obtains from it, the error that ends the reading
  (if any) and the error of \<^verbatim>\<open>Close\<close> (if any).
  \<^verbatim>\<open>io.NopCloser(bytes.NewBuffer(bodyBytes))\<close> is a stream that fails at neither.
\<close>

record body =
  data :: string
  read_err :: "string option"
  close_err :: "string option"

definition ReadAll :: "body \<Rightarrow> string \<times> string option" where
  "ReadAll b = (data b, read_err b)"

definition NopCloser :: "string \<Rightarrow> body" where
  "NopCloser bodyBytes = \<lparr>data = bodyBytes, read_err = None, close_err = None\<rparr>"

text \<open>
  Context values are \<^verbatim>\<open>interface{}\<close>: the JSON-like values above or a \<^verbatim>\<open>time.Time\<close>
  (an instant in nanoseconds). A context is the chain of \<^verbatim>\<open>WithValue\<close> nodes, newest
  first; \<^verbatim>\<open>Value\<close> answers nil for a key that is not in the chain.
\<close>

datatype any = AJson json | ATime int

datatype contextKey = ContextKey string

definition requestBodyKey :: contextKey where "requestBodyKey = ContextKey ''requestBody''"
definition pathKey :: contextKey where "pathKey = ContextKey ''path''"
definition methodKey :: contextKey where "methodKey = ContextKey ''method''"
definition startTimeKey :: contextKey where "startTimeKey = ContextKey ''startTime''"

type_synonym Context = "(contextKey \<times> any) list"

definition WithValue :: "Context \<Rightarrow> contextKey \<Rightarrow> any \<Rightarrow> Context" where
  "WithValue ctx k v = (k, v) # ctx"

definition Value :: "Context \<Rightarrow> contextKey \<Rightarrow> any" where
  "Value ctx k = (case map_of ctx k of None \<Rightarrow> AJson JNull | Some v \<Rightarrow> v)"

text \<open>The type assertions \<^verbatim>\<open>.(string)\<close> and \<^verbatim>\<open>.(time.Time)\<close>; \<open>None\<close> is the run-time panic.\<close>

definition assert_string :: "any \<Rightarrow> string option" where
  "assert_string v = (case v of AJson (JString s) \<Rightarrow> Some s | _ \<Rightarrow> None)"

definition assert_Time :: "any \<Rightarrow> int option" where
  "assert_Time v = (case v of ATime t \<Rightarrow> Some t | _ \<Rightarrow> None)"

record Request =
  ReqMethod :: string
  URLScheme :: string
  URLHost :: string
  URLPath :: string
  Host :: string
  Header :: Header
  Body :: body
  Ctx :: Context

record HttpResponse =
  StatusCode :: nat
  RHeader :: Header
  RBody :: body

text \<open>What the handler has written to the \<^verbatim>\<open>http.ResponseWriter\<close>.\<close>

record ClientResponse =
  Status :: nat
  CHeader :: Header
  CBody :: string

datatype failure = Panic string | Err string

datatype handled = Written ClientResponse | Panicked string

text \<open>\<^verbatim>\<open>logging.Entry\<close>; instants and durations in nanoseconds.\<close>

record Entry =
  Timestamp :: int
  RequestBody :: any
  Response :: any
  Duration :: int
  Path :: string
  Method :: string
  CorrelationID :: string

text \<open>
  The destination \<^verbatim>\<open>*os.File\<close>: a write appends unless the handle is closed or the
  destination is faulty (\<open>write_fault\<close>), and a close of a closed handle is an error, as
  the \<^verbatim>\<open>os\<close> package documents.
\<close>

record File =
  closed :: bool
  contents :: string
  write_fault :: "string option"
  close_fault :: "string option"

definition File_Write :: "File \<Rightarrow> string \<Rightarrow> File \<times> string option" where
  "File_Write f b =
     (if closed f then (f, Some ''file already closed'')
      else (case write_fault f of
              Some e \<Rightarrow> (f, Some e)
            | None \<Rightarrow> (f\<lparr>contents := contents f @ b\<rparr>, None)))"

definition File_Close :: "File \<Rightarrow> File \<times> string option" where
  "File_Close f =
     (if closed f then (f, Some ''file already closed'')
      else (f\<lparr>closed := True\<rparr>, close_fault f))"

record FileLogger =
  file_handle :: "File option"

text \<open>Lines written with \<^verbatim>\<open>log.Printf\<close> (the process's own log, not the destination file).\<close>

datatype log_line =
    ErrorEncodingLogEntry string
  | Logged string string int
  | ErrorClosingLogFile string
  | ErrorClosingRequestBody string
  | WarningRequestBodyNotJSON
  | ErrorClosingResponseBody string
  | ProxyError string

text \<open>
  The process state that the handler threads: the logger, the process log, the number of
  clock readings taken so far, and two traces kept to state the claims: the requests
  handed to the underlying transport and the entries handed to \<^verbatim>\<open>LogRequest\<close>.
\<close>

record World =
  logger :: FileLogger
  stdlog :: "log_line list"
  ticks :: nat
  upstream_calls :: "Request list"
  emitted :: "Entry list"

text \<open>
  What the repository takes from outside: the JSON decoder, the JSON encoder of an entry
  (\<open>Inl\<close> a serialisation error), the underlying \<^verbatim>\<open>http.DefaultTransport\<close> (\<open>Inl\<close> a
  transport error) and the clock, as the sequence of its readings.
\<close>

record Env =
  unmarshal :: decoder
  marshal :: "Entry \<Rightarrow> string + string"
  transport :: "Request \<Rightarrow> string + HttpResponse"
  clock :: "nat \<Rightarrow> int"

definition Now :: "Env \<Rightarrow> World \<Rightarrow> int \<times> World" where
  "Now env w = (clock env (ticks w), w\<lparr>ticks := Suc (ticks w)\<rparr>)"

definition Printf :: "log_line \<Rightarrow> World \<Rightarrow> World" where
  "Printf l w = w\<lparr>stdlog := stdlog w @ [l]\<rparr>"

section \<open>The Log Sink: \<^verbatim>\<open>FileLogger\<close>\<close>

text \<open>
  \<^verbatim>\<open>enc.Encode(entry)\<close>: serialise, then one write to the file. A nil \<^verbatim>\<open>*os.File\<close> rejects
  the write with an error.
\<close>

definition Encode :: "Env \<Rightarrow> File option \<Rightarrow> Entry \<Rightarrow> File option \<times> string option" where
  "Encode env fo entry =
     (case marshal env entry of
        Inl e \<Rightarrow> (fo, Some e)
      | Inr b \<Rightarrow>
          (case fo of
             None \<Rightarrow> (None, Some ''invalid argument'')
           | Some f \<Rightarrow> (case File_Write f b of (f', err) \<Rightarrow> (Some f', err))))"

definition LogRequest :: "Env \<Rightarrow> Entry \<Rightarrow> World \<Rightarrow> World" where
  "LogRequest env entry w =
     (let w0 = w\<lparr>emitted := emitted w @ [entry]\<rparr> in
      case Encode env (file_handle (logger w0)) entry of
        (fo, Some err) \<Rightarrow> Printf (ErrorEncodingLogEntry err) (w0\<lparr>logger := \<lparr>file_handle = fo\<rparr>\<rparr>)
      | (fo, None) \<Rightarrow>
          Printf (Logged (Method entry) (Path entry) (Duration entry)) (w0\<lparr>logger := \<lparr>file_handle = fo\<rparr>\<rparr>))"

definition Close :: "World \<Rightarrow> World" where
  "Close w =
     (case file_handle (logger w) of
        None \<Rightarrow> w
      | Some f \<Rightarrow>
          (case File_Close f of
             (f', Some err) \<Rightarrow> Printf (ErrorClosingLogFile err) (w\<lparr>logger := \<lparr>file_handle = Some f'\<rparr>\<rparr>)
           | (f', None) \<Rightarrow> w\<lparr>logger := \<lparr>file_handle = Some f'\<rparr>\<rparr>))"

section \<open>The Interception Transport: \<^verbatim>\<open>loggingTransport.RoundTrip\<close>\<close>

text \<open>Lines 137 to 145: the correlation id.\<close>

definition correlation_id :: "Header \<Rightarrow> string" where
  "correlation_id h =
     (let correlationID = Get h ''apim-request-id'' in
      if correlationID = [] then
        (let correlationID = Get h ''x-ms-request-id'' in
         if correlationID = [] then Get h ''x-ms-correlation-request-id'' else correlationID)
      else correlationID)"

text \<open>Lines 159 to 168: the response payload that is logged.\<close>

definition response_payload :: "decoder \<Rightarrow> string \<Rightarrow> json" where
  "response_payload u bodyBytes =
     (case u bodyBytes of
        Some responseBody \<Rightarrow> responseBody
      | None \<Rightarrow>
          if Contains bodyBytes ''data: '' then processStreamingResponse u bodyBytes
          else JString bodyBytes)"

definition RoundTrip :: "Env \<Rightarrow> Request \<Rightarrow> World \<Rightarrow> (failure + HttpResponse) \<times> World" where
  "RoundTrip env req w =
     (let requestBody = Value (Ctx req) requestBodyKey in
      case assert_string (Value (Ctx req) pathKey) of
        None \<Rightarrow> (Inl (Panic ''interface conversion: path''), w)
      | Some path \<Rightarrow>
      (case assert_string (Value (Ctx req) methodKey) of
        None \<Rightarrow> (Inl (Panic ''interface conversion: method''), w)
      | Some method \<Rightarrow>
      (case assert_Time (Value (Ctx req) startTimeKey) of
        None \<Rightarrow> (Inl (Panic ''interface conversion: startTime''), w)
      | Some startTime \<Rightarrow>
      (let w1 = w\<lparr>upstream_calls := upstream_calls w @ [req]\<rparr> in
       case transport env req of
         Inl err \<Rightarrow> (Inl (Err err), w1)
       | Inr resp \<Rightarrow>
           (let correlationID = correlation_id (RHeader resp) in
            case ReadAll (RBody resp) of
              (bodyBytes, Some err) \<Rightarrow> (Inl (Err err), w1)
            | (bodyBytes, None) \<Rightarrow>
                (let w2 = (case close_err (RBody resp) of
                             Some err \<Rightarrow> Printf (ErrorClosingResponseBody err) w1
                           | None \<Rightarrow> w1);
                     resp' = resp\<lparr>RBody := NopCloser bodyBytes\<rparr>;
                     responseBody = response_payload (unmarshal env) bodyBytes
                 in case Now env w2 of (timestamp, w3) \<Rightarrow>
                    (case Now env w3 of (since, w4) \<Rightarrow>
                       (Inr resp',
                        LogRequest env
                          \<lparr>Timestamp = timestamp,
                           RequestBody = requestBody,
                           Response = AJson responseBody,
                           Duration = since - startTime,
                           Path = path,
                           Method = method,
                           CorrelationID = correlationID\<rparr> w4))))))))"

section \<open>The Forwarding Engine and the Gatekeeper: \<^verbatim>\<open>New\<close> and \<^verbatim>\<open>Server.ServeHTTP\<close>\<close>

record Server =
  targetScheme :: string
  targetHost :: string
  apiKey :: string

text \<open>
  Modelled from the spec: the default director of \<^verbatim>\<open>httputil.NewSingleHostReverseProxy\<close>
  is library code. Section 4.2 has it rewrite the request's destination to the upstream
  (scheme and host) while preserving path, query, headers, method and body verbatim.
\<close>

definition originalDirector :: "Server \<Rightarrow> Request \<Rightarrow> Request" where
  "originalDirector s req = req\<lparr>URLScheme := targetScheme s, URLHost := targetHost s\<rparr>"

text \<open>The director installed by \<^verbatim>\<open>New\<close>.\<close>

definition Director :: "Server \<Rightarrow> Request \<Rightarrow> Request" where
  "Director s req = (originalDirector s req)\<lparr>Host := targetHost s\<rparr>"

text \<open>
  Modelled from the spec: \<^verbatim>\<open>httputil.ReverseProxy.ServeHTTP\<close> is library code. Sections 4.2
  and 7 have it make a single forwarding attempt through the transport installed by
  \<^verbatim>\<open>New\<close>, relay the response it gets without reading or modifying it, and report a
  transport error to the client as a proxy error (status 502). A panic of the transport
  unwinds the handler.
\<close>

definition ReverseProxy_ServeHTTP :: "Env \<Rightarrow> Server \<Rightarrow> Request \<Rightarrow> World \<Rightarrow> handled \<times> World" where
  "ReverseProxy_ServeHTTP env s req w =
     (case RoundTrip env (Director s req) w of
        (Inl (Panic p), w') \<Rightarrow> (Panicked p, w')
      | (Inl (Err e), w') \<Rightarrow>
          (Written \<lparr>Status = 502, CHeader = (\<lambda>k. []), CBody = []\<rparr>, Printf (ProxyError e) w')
      | (Inr resp, w') \<Rightarrow>
          (Written \<lparr>Status = StatusCode resp, CHeader = RHeader resp, CBody = data (RBody resp)\<rparr>,
           w'))"

text \<open>\<^verbatim>\<open>http.Error\<close>: a plain-text reply, the message followed by a newline.\<close>

definition http_Error :: "string \<Rightarrow> nat \<Rightarrow> ClientResponse" where
  "http_Error msg code =
     \<lparr>Status = code,
      CHeader = (\<lambda>k. [])(''Content-Type'' := [''text/plain; charset=utf-8''],
                          ''X-Content-Type-Options'' := [''nosniff'']),
      CBody = msg @ [CHR ''\<newline>'']\<rparr>"

definition ServeHTTP :: "Env \<Rightarrow> Server \<Rightarrow> Request \<Rightarrow> World \<Rightarrow> handled \<times> World" where
  "ServeHTTP env s r w =
     (if apiKey s \<noteq> [] \<and> Get (Header r) ''X-API-Key'' \<noteq> apiKey s then
        (Written (http_Error ''Unauthorized'' 401), w)
      else
        (case ReadAll (Body r) of
           (bodyBytes, Some err) \<Rightarrow> (Written (http_Error ''Error reading request body'' 500), w)
         | (bodyBytes, None) \<Rightarrow>
             (let w1 = (case close_err (Body r) of
                          Some err \<Rightarrow> Printf (ErrorClosingRequestBody err) w
                        | None \<Rightarrow> w);
                  r1 = r\<lparr>Body := NopCloser bodyBytes\<rparr>
              in case (case unmarshal env bodyBytes of
                         None \<Rightarrow> (JString bodyBytes, Printf WarningRequestBodyNotJSON w1)
                       | Some v \<Rightarrow> (v, w1)) of
                   (requestBody, w2) \<Rightarrow>
                     (let ctx = Ctx r1;
                          ctx = WithValue ctx requestBodyKey (AJson requestBody);
                          ctx = WithValue ctx pathKey (AJson (JString (URLPath r1)));
                          ctx = WithValue ctx methodKey (AJson (JString (ReqMethod r1)))
                      in case Now env w2 of
                           (now, w3) \<Rightarrow>
                             (let ctx = WithValue ctx startTimeKey (ATime now)
                              in ReverseProxy_ServeHTTP env s (r1\<lparr>Ctx := ctx\<rparr>) w3)))))"


section \<open>The specification's wording, for comparison with the code\<close>

text \<open>
  Section 4.4 of the specification describes the Stream Reconstructor as: split into
  lines; keep the lines that begin with the marker and strip it; skip the sentinel; decode
  the rest as a chunk object and skip what does not decode; of a chunk whose \<^verbatim>\<open>choices\<close>
  array is not empty take the first choice's \<^verbatim>\<open>delta.content\<close> string, then its
  \<^verbatim>\<open>message.content\<close> string; concatenate in line order.
\<close>

definition data_payloads :: "string \<Rightarrow> string list" where
  "data_payloads text = map (drop 6) (filter (\<lambda>l. take 6 l = ''data: '') (Split_newline text))"

definition content_field :: "(string \<times> json) list \<Rightarrow> string \<Rightarrow> string" where
  "content_field choice shape =
     (case map_of choice shape of
        Some (JObject m) \<Rightarrow> (case map_of m ''content'' of Some (JString c) \<Rightarrow> c | _ \<Rightarrow> [])
      | _ \<Rightarrow> [])"

definition chunk_content :: "decoder \<Rightarrow> string \<Rightarrow> string" where
  "chunk_content u payload =
     (if payload = ''[DONE]'' then []
      else (case u payload of
              Some (JObject chunk) \<Rightarrow>
                (case map_of chunk ''choices'' of
                   Some (JArray (JObject choice # rest)) \<Rightarrow>
                     content_field choice ''delta'' @ content_field choice ''message''
                 | _ \<Rightarrow> [])
            | _ \<Rightarrow> []))"

definition reconstructed_content :: "decoder \<Rightarrow> string \<Rightarrow> string" where
  "reconstructed_content u text = concat (map (chunk_content u) (data_payloads text))"

text \<open>
  Reading a payload as section 8 does ("the reconstructed payload's message content"):
  the message of the first entry of \<^verbatim>\<open>choices\<close>, its \<^verbatim>\<open>role\<close> and its \<^verbatim>\<open>content\<close>.
\<close>

definition first_message :: "json \<Rightarrow> (string \<times> json) list option" where
  "first_message v =
     (case v of
        JObject payload \<Rightarrow>
          (case map_of payload ''choices'' of
             Some (JArray (JObject choice # rest)) \<Rightarrow>
               (case map_of choice ''message'' of Some (JObject m) \<Rightarrow> Some m | _ \<Rightarrow> None)
           | _ \<Rightarrow> None)
      | _ \<Rightarrow> None)"

definition message_content :: "json \<Rightarrow> string option" where
  "message_content v =
     (case first_message v of
        None \<Rightarrow> None
      | Some m \<Rightarrow> (case map_of m ''content'' of Some (JString c) \<Rightarrow> Some c | _ \<Rightarrow> None))"

definition message_role :: "json \<Rightarrow> string option" where
  "message_role v =
     (case first_message v of
        None \<Rightarrow> None
      | Some m \<Rightarrow> (case map_of m ''role'' of Some (JString c) \<Rightarrow> Some c | _ \<Rightarrow> None))"

text \<open>
  Section 4.3 defines the chunked-event-stream marker as a line beginning with the
  prefix \<^verbatim>\<open>data: \<close>, and the logged response payload by three cases on it.
\<close>

definition has_marker_line :: "string \<Rightarrow> bool" where
  "has_marker_line b = list_ex (\<lambda>l. HasPrefix l ''data: '') (Split_newline b)"

definition spec_response_payload :: "decoder \<Rightarrow> string \<Rightarrow> json" where
  "spec_response_payload u bodyBytes =
     (case u bodyBytes of
        Some v \<Rightarrow> v
      | None \<Rightarrow>
          if has_marker_line bodyBytes then processStreamingResponse u bodyBytes
          else JString bodyBytes)"

text \<open>
  The correlation headers in priority order. \<open>first_present\<close> is the specification's
  reading (the value of the first header that is present), \<open>first_nonempty\<close> the first
  value that is not the empty string.
\<close>

definition correlation_headers :: "string list" where
  "correlation_headers = [''apim-request-id'', ''x-ms-request-id'', ''x-ms-correlation-request-id'']"

fun first_present :: "Header \<Rightarrow> string list \<Rightarrow> string" where
  "first_present h [] = []"
| "first_present h (k # ks) =
     (if h (CanonicalMIMEHeaderKey k) \<noteq> [] then Get h k else first_present h ks)"

fun first_nonempty :: "string list \<Rightarrow> string" where
  "first_nonempty [] = []"
| "first_nonempty (v # vs) = (if v \<noteq> [] then v else first_nonempty vs)"

section \<open>Notions used to state the properties\<close>

text \<open>
  The Call Context is complete for the transport when the three type assertions of
  \<^verbatim>\<open>RoundTrip\<close> succeed. \<open>captured_entry\<close> is the entry \<^verbatim>\<open>RoundTrip\<close> builds from a
  response whose body was read in full.
\<close>

definition has_call_context :: "Request \<Rightarrow> bool" where
  "has_call_context req =
     (assert_string (Value (Ctx req) pathKey) \<noteq> None
      \<and> assert_string (Value (Ctx req) methodKey) \<noteq> None
      \<and> assert_Time (Value (Ctx req) startTimeKey) \<noteq> None)"

definition captured_entry :: "Env \<Rightarrow> Request \<Rightarrow> HttpResponse \<Rightarrow> World \<Rightarrow> Entry" where
  "captured_entry env req resp w =
     \<lparr>Timestamp = clock env (ticks w),
      RequestBody = Value (Ctx req) requestBodyKey,
      Response = AJson (response_payload (unmarshal env) (data (RBody resp))),
      Duration = clock env (Suc (ticks w)) - the (assert_Time (Value (Ctx req) startTimeKey)),
      Path = the (assert_string (Value (Ctx req) pathKey)),
      Method = the (assert_string (Value (Ctx req) methodKey)),
      CorrelationID = correlation_id (RHeader resp)\<rparr>"

text \<open>
  The Gatekeeper's authentication check, the payload it stores for the request body, the
  request it hands to the Forwarding Engine and the state in which it does so.
\<close>

definition authorised :: "Server \<Rightarrow> Request \<Rightarrow> bool" where
  "authorised s r = (apiKey s = [] \<or> Get (Header r) ''X-API-Key'' = apiKey s)"

definition request_payload :: "decoder \<Rightarrow> string \<Rightarrow> json" where
  "request_payload u bodyBytes = (case u bodyBytes of None \<Rightarrow> JString bodyBytes | Some v \<Rightarrow> v)"

definition annotated :: "Env \<Rightarrow> Request \<Rightarrow> World \<Rightarrow> Request" where
  "annotated env r w =
     r\<lparr>Body := NopCloser (data (Body r)),
       Ctx := [(startTimeKey, ATime (clock env (ticks w))),
               (methodKey, AJson (JString (ReqMethod r))),
               (pathKey, AJson (JString (URLPath r))),
               (requestBodyKey, AJson (request_payload (unmarshal env) (data (Body r))))] @ Ctx r\<rparr>"

definition gate_world :: "Env \<Rightarrow> Request \<Rightarrow> World \<Rightarrow> World" where
  "gate_world env r w =
     (let w1 = (case close_err (Body r) of
                  Some err \<Rightarrow> Printf (ErrorClosingRequestBody err) w
                | None \<Rightarrow> w);
          w2 = (case unmarshal env (data (Body r)) of
                  None \<Rightarrow> Printf WarningRequestBodyNotJSON w1
                | Some v \<Rightarrow> w1)
      in w2\<lparr>ticks := Suc (ticks w2)\<rparr>)"

section \<open>Concrete inputs\<close>

text \<open>The example stream of section 8, and a stream none of whose lines contributes.\<close>

definition example_chunk :: "string \<Rightarrow> string" where
  \<open>example_chunk c = ''{"choices":[{"delta":{"content":"'' @ c @ ''"}}]}''\<close>

definition delta_chunk :: "string \<Rightarrow> json" where
  "delta_chunk c =
     JObject [(''choices'', JArray [JObject [(''delta'', JObject [(''content'', JString c)])]])]"

definition example_stream :: string where
  "example_stream =
     ''data: '' @ example_chunk ''Hel'' @ [CHR ''\<newline>''] @
     ''data: '' @ example_chunk ''lo'' @ [CHR ''\<newline>''] @
     ''data: [DONE]'' @ [CHR ''\<newline>'']"

definition noisy_stream :: string where
  "noisy_stream = ''event: ping'' @ [CHR ''\<newline>''] @ ''data: [DONE]'' @ [CHR ''\<newline>''] @ ''data: {truncated''"

text \<open>
  A server with the key \<^verbatim>\<open>secret\<close> and one without a key; requests with the right key,
  a wrong key, no key, and a body whose reading fails.
\<close>

definition demo_server :: Server where
  "demo_server = \<lparr>targetScheme = ''https'', targetHost = ''example.openai.azure.com'', apiKey = ''secret''\<rparr>"

definition open_server :: Server where
  "open_server = demo_server\<lparr>apiKey := []\<rparr>"

definition demo_request :: Request where
  \<open>demo_request =
     \<lparr>ReqMethod = ''POST'', URLScheme = [], URLHost = [],
      URLPath = ''/openai/deployments/gpt-4o/chat/completions'',
      Host = ''localhost:8080'',
      Header = (\<lambda>k. [])(''X-Api-Key'' := [''secret'']),
      Body = NopCloser ''{"messages":[]}'',
      Ctx = []\<rparr>\<close>

definition wrong_key_request :: Request where
  "wrong_key_request = demo_request\<lparr>Header := (\<lambda>k. [])(''X-Api-Key'' := [''wrong''])\<rparr>"

definition keyless_request :: Request where
  "keyless_request = demo_request\<lparr>Header := (\<lambda>k. [])\<rparr>"

definition broken_request :: Request where
  "broken_request =
     demo_request\<lparr>Header := (\<lambda>k. []),
                  Body := \<lparr>data = [], read_err = Some ''connection reset by peer'', close_err = None\<rparr>\<rparr>"

text \<open>
  Upstream responses: a JSON body, a body whose stream breaks after the headers have
  arrived, an error status, a plain-text body, and one that carries only the two fallback
  correlation headers. \<open>midline_body\<close> contains the marker bytes, but not at the start
  of a line. \<open>blank_primary\<close> carries the primary correlation header with an empty value.
\<close>

definition demo_response :: HttpResponse where
  \<open>demo_response =
     \<lparr>StatusCode = 200,
      RHeader = (\<lambda>k. [])(''Apim-Request-Id'' := [''abc'']),
      RBody = NopCloser ''{"ok":true}''\<rparr>\<close>

definition cut_response :: HttpResponse where
  \<open>cut_response =
     demo_response\<lparr>RBody := \<lparr>data = ''{"ok"'', read_err = Some ''unexpected EOF'', close_err = None\<rparr>\<rparr>\<close>

definition error_response :: HttpResponse where
  \<open>error_response =
     \<lparr>StatusCode = 429, RHeader = (\<lambda>k. []), RBody = NopCloser ''{"error":"rate limited"}''\<rparr>\<close>

definition plain_body :: string where
  "plain_body = ''Service Unavailable''"

definition plain_response :: HttpResponse where
  "plain_response = \<lparr>StatusCode = 503, RHeader = (\<lambda>k. []), RBody = NopCloser plain_body\<rparr>"

definition midline_body :: string where
  "midline_body = ''upstream said: invalid data: try again''"

definition blank_primary :: Header where
  "blank_primary = (\<lambda>k. [])(''Apim-Request-Id'' := [[]], ''X-Ms-Request-Id'' := [''abc''])"

definition fallback_headers :: Header where
  "fallback_headers = (\<lambda>k. [])(''X-Ms-Correlation-Request-Id'' := [''c-3''], ''X-Ms-Request-Id'' := [''r-2''])"

definition fallback_response :: HttpResponse where
  "fallback_response = demo_response\<lparr>RHeader := fallback_headers\<rparr>"

text \<open>
  Environments that differ in what the underlying transport answers, and process states
  whose log destination is healthy or rejects every write.
\<close>

definition demo_env :: Env where
  "demo_env =
     \<lparr>unmarshal = ref_Unmarshal,
      marshal = (\<lambda>e. Inr ''{}''),
      transport = (\<lambda>q. Inr demo_response),
      clock = int\<rparr>"

definition cut_env :: Env where
  "cut_env = demo_env\<lparr>transport := (\<lambda>q. Inr cut_response)\<rparr>"

definition down_env :: Env where
  "down_env = demo_env\<lparr>transport := (\<lambda>q. Inl ''connection refused'')\<rparr>"

definition error_env :: Env where
  "error_env = demo_env\<lparr>transport := (\<lambda>q. Inr error_response)\<rparr>"

definition plain_env :: Env where
  "plain_env = demo_env\<lparr>transport := (\<lambda>q. Inr plain_response)\<rparr>"

definition fallback_env :: Env where
  "fallback_env = demo_env\<lparr>transport := (\<lambda>q. Inr fallback_response)\<rparr>"

definition demo_file :: File where
  "demo_file = \<lparr>closed = False, contents = [], write_fault = None, close_fault = None\<rparr>"

definition demo_world :: World where
  "demo_world =
     \<lparr>logger = \<lparr>file_handle = Some demo_file\<rparr>,
      stdlog = [], ticks = 0, upstream_calls = [], emitted = []\<rparr>"

definition faulty_world :: World where
  "faulty_world =
     demo_world\<lparr>logger := \<lparr>file_handle = Some (demo_file\<lparr>write_fault := Some ''no space left on device''\<rparr>)\<rparr>\<rparr>"

definition demo_entry :: Entry where
  "demo_entry =
     \<lparr>Timestamp = 2, RequestBody = AJson JNull, Response = AJson (JString ''ok''), Duration = 1,
      Path = ''/'', Method = ''GET'', CorrelationID = []\<rparr>"

text \<open>
  Requests as the transport sees them: with the full Call Context, without the request
  body, and without the path.
\<close>

definition transport_request :: Request where
  "transport_request = Director demo_server (annotated demo_env demo_request demo_world)"

definition bare_request :: Request where
  "bare_request =
     transport_request\<lparr>Ctx := [(startTimeKey, ATime 0),
                                (methodKey, AJson (JString ''POST'')),
                                (pathKey, AJson (JString ''/''))]\<rparr>"

definition pathless_request :: Request where
  "pathless_request =
     transport_request\<lparr>Ctx := [(startTimeKey, ATime 0),
                                (methodKey, AJson (JString ''POST'')),
                                (requestBodyKey, AJson (JString ''hi''))]\<rparr>"


section \<open>Properties of the Stream Reconstructor\<close>

lemma length_data_marker: "length ''data: '' = 6"
  by simp

lemma HasPrefix_data: "HasPrefix l ''data: '' = (take 6 l = ''data: '')"
proof -
  have "6 \<le> length l" if "take 6 l = ''data: ''"
  proof -
    have "length (take 6 l) = length ''data: ''" using that by (rule arg_cong)
    then have "min (length l) 6 = 6" by (simp only: length_take length_data_marker)
    then show ?thesis by linarith
  qed
  then show ?thesis unfolding HasPrefix_def length_data_marker by blast
qed

lemma TrimPrefix_data: "take 6 l = ''data: '' \<Longrightarrow> TrimPrefix l ''data: '' = drop 6 l"
  unfolding TrimPrefix_def HasPrefix_data length_data_marker by simp

lemma content_field_assert:
  "content_field choice shape =
     (case as_object (map_of choice shape) of
        None \<Rightarrow> []
      | Some m \<Rightarrow> (case as_string (map_of m ''content'') of None \<Rightarrow> [] | Some c \<Rightarrow> c))"
  by (simp add: content_field_def as_object_def as_string_def split: option.splits json.splits)

lemma shape_append:
  "(case as_object (map_of choice shape) of
      None \<Rightarrow> acc
    | Some m \<Rightarrow> (case as_string (map_of m ''content'') of None \<Rightarrow> acc | Some c \<Rightarrow> acc @ c))
   = acc @ content_field choice shape"
  by (simp add: content_field_assert split: option.splits)

lemma chunk_step_choice:
  "chunk_step chunk acc =
     (case as_array (map_of chunk ''choices'') of
        None \<Rightarrow> acc
      | Some choices \<Rightarrow>
          if 0 < length choices then
            (case as_object (Some (choices ! 0)) of
               None \<Rightarrow> acc
             | Some choice \<Rightarrow>
                 (acc @ content_field choice ''delta'') @ content_field choice ''message'')
          else acc)"
  unfolding chunk_step_def Let_def shape_append by (rule refl)

lemma chunk_step_append: "chunk_step chunk acc = acc @ chunk_step chunk []"
  by (simp add: chunk_step_choice split: option.splits)

lemma first_choice_cases:
  "(if 0 < length choices then
      (case as_object (Some (choices ! 0)) of None \<Rightarrow> [] | Some choice \<Rightarrow> f choice)
    else [])
   = (case choices of JObject choice # rest \<Rightarrow> f choice | _ \<Rightarrow> [])"
  by (cases choices) (simp_all add: as_object_def split: json.splits)

lemma chunk_step_content:
  "chunk_step chunk [] =
     (case map_of chunk ''choices'' of
        Some (JArray (JObject choice # rest)) \<Rightarrow>
          content_field choice ''delta'' @ content_field choice ''message''
      | _ \<Rightarrow> [])"
proof (cases "as_array (map_of chunk ''choices'')")
  case None
  then show ?thesis
    by (simp add: chunk_step_choice as_array_def split: option.splits json.splits)
next
  case (Some choices)
  then have m: "map_of chunk ''choices'' = Some (JArray choices)"
    by (simp add: as_array_def split: option.splits json.splits)
  have "chunk_step chunk [] =
          (if 0 < length choices then
             (case as_object (Some (choices ! 0)) of
                None \<Rightarrow> []
              | Some choice \<Rightarrow> content_field choice ''delta'' @ content_field choice ''message'')
           else [])"
    by (simp add: chunk_step_choice Some split: option.splits)
  also have "\<dots> = (case choices of
                       JObject choice # rest \<Rightarrow>
                         content_field choice ''delta'' @ content_field choice ''message''
                     | _ \<Rightarrow> [])"
    by (rule first_choice_cases)
  finally show ?thesis by (simp add: m)
qed

lemma line_step_append: "line_step u acc l = acc @ line_step u [] l"
  using chunk_step_append [of _ acc]
  by (simp add: line_step_def Let_def split: option.splits)

lemma line_step_content:
  "line_step u [] l = (if take 6 l = ''data: '' then chunk_content u (drop 6 l) else [])"
  by (simp add: line_step_def HasPrefix_data TrimPrefix_data chunk_content_def Unmarshal_map_def
      chunk_step_content Let_def split: option.splits json.splits)

lemma lines_loop_concat: "lines_loop u acc ls = acc @ concat (map (line_step u []) ls)"
proof (induction ls arbitrary: acc)
  case Nil
  show ?case by simp
next
  case (Cons l ls)
  have "lines_loop u acc (l # ls) = lines_loop u (line_step u acc l) ls" by simp
  also have "\<dots> = line_step u acc l @ concat (map (line_step u []) ls)" by (rule Cons.IH)
  also have "\<dots> = acc @ line_step u [] l @ concat (map (line_step u []) ls)"
    using line_step_append [of u acc l] by simp
  finally show ?case by simp
qed

lemma concat_map_payloads:
  "concat (map (line_step u []) ls) =
   concat (map (chunk_content u) (map (drop 6) (filter (\<lambda>l. take 6 l = ''data: '') ls)))"
  by (induction ls) (simp_all add: line_step_content)

lemma processStreamingResponse_content:
  "processStreamingResponse u text = simplified_response (reconstructed_content u text)"
  by (simp add: processStreamingResponse_def lines_loop_concat concat_map_payloads
      reconstructed_content_def data_payloads_def)

lemma example_payloads:
  "data_payloads example_stream = [example_chunk ''Hel'', example_chunk ''lo'', ''[DONE]'']"
  by code_simp

lemma example_chunk_not_done: "example_chunk c \<noteq> ''[DONE]''"
  by (simp add: example_chunk_def)

lemma delta_chunk_content: "u p = Some (delta_chunk c) \<Longrightarrow> p \<noteq> ''[DONE]'' \<Longrightarrow> chunk_content u p = c"
  by (simp add: chunk_content_def delta_chunk_def content_field_def)

lemma done_content: "chunk_content u ''[DONE]'' = []"
  by (simp add: chunk_content_def)

text \<open>The payload written out, and what reading it gives.\<close>

lemma processStreamingResponse_payload:
  "processStreamingResponse u text =
     JObject [(''choices'',
       JArray [JObject [(''message'',
         JObject [(''role'', JString ''assistant''), (''content'', JString (reconstructed_content u text))])]])]"
  by (simp add: processStreamingResponse_content simplified_response_def)

lemma payload_reading:
  "message_content
     (JObject [(''choices'',
       JArray [JObject [(''message'',
         JObject [(''role'', JString ''assistant''), (''content'', JString c)])]])]) = Some c"
  "message_role
     (JObject [(''choices'',
       JArray [JObject [(''message'',
         JObject [(''role'', JString ''assistant''), (''content'', JString c)])]])]) = Some ''assistant''"
  by (simp_all add: message_content_def message_role_def first_message_def)

lemma example_content:
  assumes "u (example_chunk ''Hel'') = Some (delta_chunk ''Hel'')"
    and "u (example_chunk ''lo'') = Some (delta_chunk ''lo'')"
  shows "reconstructed_content u example_stream = ''Hello''"
proof -
  have "reconstructed_content u example_stream = ''Hel'' @ ''lo'' @ []"
    unfolding reconstructed_content_def example_payloads
    using assms by (simp add: delta_chunk_content example_chunk_not_done done_content)
  then show ?thesis by simp
qed

text \<open>
  Claim C4. For every input and every decoder, the loop of \<^verbatim>\<open>processStreamingResponse\<close>
  computes what the specification describes: the lines beginning with \<^verbatim>\<open>data: \<close> are
  stripped of the prefix, the sentinel \<^verbatim>\<open>[DONE]\<close> and the chunks that do not decode to an
  object add nothing, and every other chunk with a non-empty \<^verbatim>\<open>choices\<close> array adds its
  first choice's \<^verbatim>\<open>delta.content\<close> and \<^verbatim>\<open>message.content\<close> strings, in line order; the
  result is the payload with one choice whose message has the role \<^verbatim>\<open>assistant\<close> and
  that concatenation as its content. In particular, with a decoder that decodes the two
  chunks of the example stream, the message content read from the reconstructed payload
  is \<^verbatim>\<open>Hello\<close>.
\<close>

theorem stream_reconstruction:
  "processStreamingResponse u text =
     JObject [(''choices'',
       JArray [JObject [(''message'',
         JObject [(''role'', JString ''assistant''), (''content'', JString (reconstructed_content u text))])]])]
   \<and> message_content (processStreamingResponse u text) = Some (reconstructed_content u text)
   \<and> (u (example_chunk ''Hel'') = Some (delta_chunk ''Hel'')
        \<and> u (example_chunk ''lo'') = Some (delta_chunk ''lo'')
      \<longrightarrow> message_content (processStreamingResponse u example_stream) = Some ''Hello''
          \<and> processStreamingResponse u example_stream =
              JObject [(''choices'',
       JArray [JObject [(''message'',
         JObject [(''role'', JString ''assistant''), (''content'', JString ''Hello'')])]])])"
proof (intro conjI impI)
  show "processStreamingResponse u text =
     JObject [(''choices'',
       JArray [JObject [(''message'',
         JObject [(''role'', JString ''assistant''), (''content'', JString (reconstructed_content u text))])]])]"
    by (rule processStreamingResponse_payload)
  show "message_content (processStreamingResponse u text) = Some (reconstructed_content u text)"
    unfolding processStreamingResponse_payload by (rule payload_reading)
next
  assume h: "u (example_chunk ''Hel'') = Some (delta_chunk ''Hel'')
             \<and> u (example_chunk ''lo'') = Some (delta_chunk ''lo'')"
  then have c: "reconstructed_content u example_stream = ''Hello''"
    by (simp add: example_content)
  show "message_content (processStreamingResponse u example_stream) = Some ''Hello''"
    unfolding processStreamingResponse_payload c by (rule payload_reading)
  show "processStreamingResponse u example_stream =
     JObject [(''choices'',
       JArray [JObject [(''message'',
         JObject [(''role'', JString ''assistant''), (''content'', JString ''Hello'')])]])]"
    unfolding processStreamingResponse_payload c by (rule refl)
qed

theorem stream_reconstruction_witness:
  "ref_Unmarshal (example_chunk ''Hel'') = Some (delta_chunk ''Hel'')
   \<and> ref_Unmarshal (example_chunk ''lo'') = Some (delta_chunk ''lo'')
   \<and> message_content (processStreamingResponse ref_Unmarshal example_stream) = Some ''Hello''
   \<and> processStreamingResponse ref_Unmarshal example_stream =
       JObject [(''choices'',
       JArray [JObject [(''message'',
         JObject [(''role'', JString ''assistant''), (''content'', JString ''Hello'')])]])]"
proof -
  have a: "ref_Unmarshal (example_chunk ''Hel'') = Some (delta_chunk ''Hel'')" by code_simp
  have b: "ref_Unmarshal (example_chunk ''lo'') = Some (delta_chunk ''lo'')" by code_simp
  from a b stream_reconstruction [of ref_Unmarshal example_stream] show ?thesis by blast
qed

lemma concat_all_empty: "(\<forall>x\<in>set xs. f x = []) \<Longrightarrow> concat (map f xs) = []"
  by (induction xs) simp_all

lemma silent_lines_content:
  assumes "\<forall>l\<in>set (Split_newline text). HasPrefix l ''data: '' \<longrightarrow> line_step u [] l = []"
  shows "reconstructed_content u text = []"
proof -
  have "line_step u [] l = []" if "l \<in> set (Split_newline text)" for l
  proof (cases "HasPrefix l ''data: ''")
    case True
    with assms that show ?thesis by blast
  next
    case False
    then show ?thesis by (simp add: line_step_def)
  qed
  then have "concat (map (line_step u []) (Split_newline text)) = []"
    by (intro concat_all_empty) blast
  then show ?thesis
    unfolding reconstructed_content_def data_payloads_def concat_map_payloads [symmetric] .
qed

text \<open>
  Claim C10. For every input, \<^verbatim>\<open>processStreamingResponse\<close> returns a value of the fixed
  shape: an object whose \<^verbatim>\<open>choices\<close> is an array of one object, whose \<^verbatim>\<open>message\<close> is an
  object with the \<^verbatim>\<open>role\<close> \<^verbatim>\<open>assistant\<close> and a \<^verbatim>\<open>content\<close> string; it is never the raw
  input text. When no line beginning with \<^verbatim>\<open>data: \<close> contributes content, the content
  string is empty.
\<close>

theorem reconstructor_total_fixed_shape:
  "(\<exists>c. processStreamingResponse u text =
          JObject [(''choices'',
       JArray [JObject [(''message'',
         JObject [(''role'', JString ''assistant''), (''content'', JString c)])]])])
   \<and> message_role (processStreamingResponse u text) = Some ''assistant''
   \<and> processStreamingResponse u text \<noteq> JString text
   \<and> ((\<forall>l\<in>set (Split_newline text). HasPrefix l ''data: '' \<longrightarrow> line_step u [] l = [])
      \<longrightarrow> message_content (processStreamingResponse u text) = Some []
          \<and> processStreamingResponse u text =
              JObject [(''choices'',
       JArray [JObject [(''message'',
         JObject [(''role'', JString ''assistant''), (''content'', JString [])])]])])"
proof (intro conjI impI)
  show "\<exists>c. processStreamingResponse u text =
          JObject [(''choices'',
       JArray [JObject [(''message'',
         JObject [(''role'', JString ''assistant''), (''content'', JString c)])]])]"
    using processStreamingResponse_payload [of u "text"] by (rule exI)
  show "message_role (processStreamingResponse u text) = Some ''assistant''"
    unfolding processStreamingResponse_payload by (rule payload_reading)
  show "processStreamingResponse u text \<noteq> JString text"
    unfolding processStreamingResponse_payload by simp
next
  assume "\<forall>l\<in>set (Split_newline text). HasPrefix l ''data: '' \<longrightarrow> line_step u [] l = []"
  then have c: "reconstructed_content u text = []" by (rule silent_lines_content)
  show "message_content (processStreamingResponse u text) = Some []"
    unfolding processStreamingResponse_payload c by (rule payload_reading)
  show "processStreamingResponse u text =
     JObject [(''choices'',
       JArray [JObject [(''message'',
         JObject [(''role'', JString ''assistant''), (''content'', JString [])])]])]"
    unfolding processStreamingResponse_payload c by (rule refl)
qed

theorem reconstructor_total_fixed_shape_witness:
  "Split_newline noisy_stream = [''event: ping'', ''data: [DONE]'', ''data: {truncated'']
   \<and> line_step ref_Unmarshal [] ''data: [DONE]'' = []
   \<and> line_step ref_Unmarshal [] ''data: {truncated'' = []
   \<and> message_content (processStreamingResponse ref_Unmarshal noisy_stream) = Some []
   \<and> processStreamingResponse ref_Unmarshal noisy_stream =
       JObject [(''choices'',
       JArray [JObject [(''message'',
         JObject [(''role'', JString ''assistant''), (''content'', JString [])])]])]
   \<and> processStreamingResponse ref_Unmarshal noisy_stream \<noteq> JString noisy_stream"
proof -
  have s: "Split_newline noisy_stream = [''event: ping'', ''data: [DONE]'', ''data: {truncated'']"
    by code_simp
  have d: "line_step ref_Unmarshal [] ''data: [DONE]'' = []"
    by code_simp
  have e: "line_step ref_Unmarshal [] ''data: {truncated'' = []"
    by code_simp
  have p: "\<not> HasPrefix ''event: ping'' ''data: ''"
    by code_simp
  have h: "\<forall>l\<in>set (Split_newline noisy_stream).
             HasPrefix l ''data: '' \<longrightarrow> line_step ref_Unmarshal [] l = []"
    unfolding s using d e p by simp
  with s d e reconstructor_total_fixed_shape [of ref_Unmarshal noisy_stream] show ?thesis
    by blast
qed


section \<open>How the transport and the handler behave, case by case\<close>

text \<open>\<^verbatim>\<open>LogRequest\<close> adds the entry to the trace and touches neither the clock nor the upstream.\<close>

lemma LogRequest_emitted: "emitted (LogRequest env e w) = emitted w @ [e]"
  by (simp add: LogRequest_def Let_def Printf_def split: prod.splits option.splits)

lemma LogRequest_upstream_calls: "upstream_calls (LogRequest env e w) = upstream_calls w"
  by (simp add: LogRequest_def Let_def Printf_def split: prod.splits option.splits)

lemma LogRequest_ticks: "ticks (LogRequest env e w) = ticks w"
  by (simp add: LogRequest_def Let_def Printf_def split: prod.splits option.splits)

text \<open>
  The four ways \<^verbatim>\<open>RoundTrip\<close> ends: a failed type assertion, a transport error, a response
  whose body cannot be read to the end, and a captured response.
\<close>

lemma RoundTrip_panic:
  "\<not> has_call_context req \<Longrightarrow> \<exists>p. RoundTrip env req w = (Inl (Panic p), w)"
  by (auto simp: has_call_context_def RoundTrip_def Let_def split: option.splits)

lemma RoundTrip_transport_error:
  "has_call_context req \<Longrightarrow> transport env req = Inl e \<Longrightarrow>
   RoundTrip env req w = (Inl (Err e), w\<lparr>upstream_calls := upstream_calls w @ [req]\<rparr>)"
  by (auto simp: has_call_context_def RoundTrip_def Let_def split: option.splits)

lemma RoundTrip_read_error:
  "has_call_context req \<Longrightarrow> transport env req = Inr resp \<Longrightarrow> read_err (RBody resp) = Some e \<Longrightarrow>
   RoundTrip env req w = (Inl (Err e), w\<lparr>upstream_calls := upstream_calls w @ [req]\<rparr>)"
  by (auto simp: has_call_context_def RoundTrip_def Let_def ReadAll_def split: option.splits)

lemma RoundTrip_response:
  assumes "has_call_context req" "transport env req = Inr resp" "read_err (RBody resp) = None"
  shows "fst (RoundTrip env req w) = Inr (resp\<lparr>RBody := NopCloser (data (RBody resp))\<rparr>)"
    and "emitted (snd (RoundTrip env req w)) = emitted w @ [captured_entry env req resp w]"
    and "upstream_calls (snd (RoundTrip env req w)) = upstream_calls w @ [req]"
  using assms
  by (auto simp: has_call_context_def RoundTrip_def Let_def ReadAll_def Now_def Printf_def
      captured_entry_def LogRequest_emitted LogRequest_upstream_calls split: option.splits)

text \<open>The three ways \<^verbatim>\<open>ServeHTTP\<close> ends: unauthorised, unreadable body, forwarded.\<close>

lemma gate_world_fields:
  "ticks (gate_world env r w) = Suc (ticks w)"
  "upstream_calls (gate_world env r w) = upstream_calls w"
  "emitted (gate_world env r w) = emitted w"
  "logger (gate_world env r w) = logger w"
  by (simp_all add: gate_world_def Let_def Printf_def split: option.splits)

lemma ServeHTTP_unauthorised:
  "\<not> authorised s r \<Longrightarrow> ServeHTTP env s r w = (Written (http_Error ''Unauthorized'' 401), w)"
  by (simp add: authorised_def ServeHTTP_def)

lemma ServeHTTP_read_error:
  "authorised s r \<Longrightarrow> read_err (Body r) = Some e \<Longrightarrow>
   ServeHTTP env s r w = (Written (http_Error ''Error reading request body'' 500), w)"
  by (auto simp: authorised_def ServeHTTP_def ReadAll_def)

lemma ServeHTTP_forward:
  "authorised s r \<Longrightarrow> read_err (Body r) = None \<Longrightarrow>
   ServeHTTP env s r w = ReverseProxy_ServeHTTP env s (annotated env r w) (gate_world env r w)"
  by (auto simp: authorised_def ServeHTTP_def ReadAll_def Let_def Now_def WithValue_def
      annotated_def gate_world_def request_payload_def Printf_def split: option.splits)

text \<open>The request handed on by the Gatekeeper carries the whole Call Context.\<close>

lemma context_keys_distinct:
  "startTimeKey \<noteq> methodKey" "startTimeKey \<noteq> pathKey" "startTimeKey \<noteq> requestBodyKey"
  "methodKey \<noteq> pathKey" "methodKey \<noteq> requestBodyKey" "pathKey \<noteq> requestBodyKey"
  by (simp_all add: startTimeKey_def methodKey_def pathKey_def requestBodyKey_def)

lemma annotated_context:
  "Value (Ctx (Director s (annotated env r w))) startTimeKey = ATime (clock env (ticks w))"
  "Value (Ctx (Director s (annotated env r w))) methodKey = AJson (JString (ReqMethod r))"
  "Value (Ctx (Director s (annotated env r w))) pathKey = AJson (JString (URLPath r))"
  "Value (Ctx (Director s (annotated env r w))) requestBodyKey =
     AJson (request_payload (unmarshal env) (data (Body r)))"
  using context_keys_distinct
  by (simp_all add: Value_def Director_def originalDirector_def annotated_def)

lemma annotated_has_call_context: "has_call_context (Director s (annotated env r w))"
  by (simp add: has_call_context_def annotated_context assert_string_def assert_Time_def)




lemma ReverseProxy_upstream_calls:
  assumes "has_call_context (Director s q)"
  shows "upstream_calls (snd (ReverseProxy_ServeHTTP env s q w)) = upstream_calls w @ [Director s q]"
proof (cases "transport env (Director s q)")
  case (Inl e)
  with assms show ?thesis
    by (simp add: ReverseProxy_ServeHTTP_def RoundTrip_transport_error Printf_def)
next
  case (Inr resp)
  show ?thesis
  proof (cases "read_err (RBody resp)")
    case None
    with assms Inr have "upstream_calls (snd (RoundTrip env (Director s q) w)) = upstream_calls w @ [Director s q]"
      by (rule RoundTrip_response)
    moreover from assms Inr None
    have "fst (RoundTrip env (Director s q) w) = Inr (resp\<lparr>RBody := NopCloser (data (RBody resp))\<rparr>)"
      by (rule RoundTrip_response)
    ultimately show ?thesis
      by (cases "RoundTrip env (Director s q) w") (simp add: ReverseProxy_ServeHTTP_def)
  next
    case (Some e)
    with assms Inr show ?thesis
      by (simp add: ReverseProxy_ServeHTTP_def RoundTrip_read_error Printf_def)
  qed
qed

section \<open>Byte-preserving forwarding and non-destructive capture\<close>


text \<open>An instance: the exchange succeeds although the log destination rejects the write.\<close>

lemma canonical_api_key: "CanonicalMIMEHeaderKey ''X-API-Key'' = ''X-Api-Key''"
  by code_simp





section \<open>When an Interaction Record is emitted\<close>

lemma RoundTrip_emitted_cases:
  "emitted (snd (RoundTrip env req w)) =
     (if has_call_context req then
        (case transport env req of
           Inl e \<Rightarrow> emitted w
         | Inr resp \<Rightarrow>
             (case read_err (RBody resp) of
                Some e \<Rightarrow> emitted w
              | None \<Rightarrow> emitted w @ [captured_entry env req resp w]))
      else emitted w)"
proof (cases "has_call_context req")
  case False
  from RoundTrip_panic [OF this, of env w] show ?thesis using False by auto
next
  case True
  show ?thesis
  proof (cases "transport env req")
    case (Inl e)
    with True show ?thesis by (simp add: RoundTrip_transport_error)
  next
    case (Inr resp)
    show ?thesis
    proof (cases "read_err (RBody resp)")
      case None
      with True Inr show ?thesis by (simp add: RoundTrip_response)
    next
      case (Some e)
      with True Inr show ?thesis by (simp add: RoundTrip_read_error)
    qed
  qed
qed

text \<open>
  Claim C2, as amended. For every request that reaches \<^verbatim>\<open>RoundTrip\<close>, exactly one
  Interaction Record is emitted if and only if the upstream round-trip returns a response
  (of any status) and the body of that response is read to the end; otherwise none is
  emitted. The round-trip is made, and so can return, only when the Call Context is
  complete. A transport-level failure is returned to the caller as it is, with no record
  and no response.
\<close>

theorem record_iff_response_captured:
  "((\<exists>e. emitted (snd (RoundTrip env req w)) = emitted w @ [e])
      = (has_call_context req \<and> (\<exists>resp. transport env req = Inr resp \<and> read_err (RBody resp) = None)))
   \<and> (emitted (snd (RoundTrip env req w)) = emitted w
        \<or> (\<exists>e. emitted (snd (RoundTrip env req w)) = emitted w @ [e]))
   \<and> (has_call_context req \<and> transport env req = Inl err \<longrightarrow>
        RoundTrip env req w = (Inl (Err err), w\<lparr>upstream_calls := upstream_calls w @ [req]\<rparr>))"
proof (intro conjI impI)
  show "(\<exists>e. emitted (snd (RoundTrip env req w)) = emitted w @ [e])
      = (has_call_context req \<and> (\<exists>resp. transport env req = Inr resp \<and> read_err (RBody resp) = None))"
    unfolding RoundTrip_emitted_cases by (auto split: sum.splits option.splits)
  show "emitted (snd (RoundTrip env req w)) = emitted w
        \<or> (\<exists>e. emitted (snd (RoundTrip env req w)) = emitted w @ [e])"
    unfolding RoundTrip_emitted_cases by (auto split: sum.splits option.splits)
  assume "has_call_context req \<and> transport env req = Inl err"
  then show "RoundTrip env req w = (Inl (Err err), w\<lparr>upstream_calls := upstream_calls w @ [req]\<rparr>)"
    by (simp add: RoundTrip_transport_error)
qed

lemma transport_request_context: "has_call_context transport_request"
  unfolding transport_request_def by (rule annotated_has_call_context)

theorem record_iff_response_captured_witness:
  "has_call_context transport_request
   \<and> transport error_env transport_request = Inr error_response
   \<and> read_err (RBody error_response) = None
   \<and> StatusCode error_response = 429
   \<and> (\<exists>e. emitted (snd (RoundTrip error_env transport_request demo_world)) = emitted demo_world @ [e])
   \<and> transport down_env transport_request = Inl ''connection refused''
   \<and> RoundTrip down_env transport_request demo_world =
       (Inl (Err ''connection refused''),
        demo_world\<lparr>upstream_calls := upstream_calls demo_world @ [transport_request]\<rparr>)"
proof -
  have a: "transport error_env transport_request = Inr error_response"
    by (simp add: error_env_def)
  have b: "read_err (RBody error_response) = None" "StatusCode error_response = 429"
    by (simp_all add: error_response_def NopCloser_def)
  have c: "transport down_env transport_request = Inl ''connection refused''"
    by (simp add: down_env_def)
  from record_iff_response_captured [of error_env transport_request demo_world]
    transport_request_context a b
  have "\<exists>e. emitted (snd (RoundTrip error_env transport_request demo_world)) = emitted demo_world @ [e]"
    by blast
  moreover from record_iff_response_captured [of down_env transport_request demo_world "''connection refused''"]
    transport_request_context c
  have "RoundTrip down_env transport_request demo_world =
       (Inl (Err ''connection refused''),
        demo_world\<lparr>upstream_calls := upstream_calls demo_world @ [transport_request]\<rparr>)"
    by blast
  ultimately show ?thesis using transport_request_context a b c by blast
qed

text \<open>
  The claim without the amendment fails: the upstream round-trip returns a response, its
  body cannot be read to the end, and no record is emitted.
\<close>

theorem unread_response_counterexample:
  "has_call_context transport_request
   \<and> transport cut_env transport_request = Inr cut_response
   \<and> emitted (snd (RoundTrip cut_env transport_request demo_world)) = emitted demo_world
   \<and> fst (RoundTrip cut_env transport_request demo_world) = Inl (Err ''unexpected EOF'')"
proof -
  have a: "transport cut_env transport_request = Inr cut_response"
    by (simp add: cut_env_def)
  have b: "read_err (RBody cut_response) = Some ''unexpected EOF''"
    by (simp add: cut_response_def)
  from RoundTrip_read_error [OF transport_request_context a b, of demo_world]
    transport_request_context a
  show ?thesis by simp
qed

section \<open>The logged response payload\<close>

text \<open>
  \<^verbatim>\<open>HasPrefix\<close> and \<^verbatim>\<open>Contains\<close> decide what their names say, and every line of a text
  occurs in the text.
\<close>

lemma HasPrefix_iff: "HasPrefix s pre = (\<exists>ys. s = pre @ ys)"
proof
  assume "HasPrefix s pre"
  then have "take (length pre) s = pre" by (simp add: HasPrefix_def)
  then have "s = pre @ drop (length pre) s" by (metis append_take_drop_id)
  then show "\<exists>ys. s = pre @ ys" ..
next
  assume "\<exists>ys. s = pre @ ys"
  then show "HasPrefix s pre" by (auto simp: HasPrefix_def)
qed

lemma Contains_iff: "Contains s sub = (\<exists>xs ys. s = xs @ sub @ ys)"
proof (induction s)
  case Nil
  show ?case by simp
next
  case (Cons c cs)
  have "(\<exists>xs ys. c # cs = xs @ sub @ ys) =
        ((\<exists>ys. c # cs = sub @ ys) \<or> (\<exists>xs ys. cs = xs @ sub @ ys))"
  proof
    assume "\<exists>xs ys. c # cs = xs @ sub @ ys"
    then obtain xs ys where e: "c # cs = xs @ sub @ ys" by blast
    show "(\<exists>ys. c # cs = sub @ ys) \<or> (\<exists>xs ys. cs = xs @ sub @ ys)"
    proof (cases xs)
      case Nil
      with e show ?thesis by auto
    next
      case (Cons x xs')
      with e have "cs = xs' @ sub @ ys" by simp
      then show ?thesis by blast
    qed
  next
    assume "(\<exists>ys. c # cs = sub @ ys) \<or> (\<exists>xs ys. cs = xs @ sub @ ys)"
    then show "\<exists>xs ys. c # cs = xs @ sub @ ys"
    proof
      assume "\<exists>ys. c # cs = sub @ ys"
      then obtain ys where "c # cs = [] @ sub @ ys" by auto
      then show ?thesis by blast
    next
      assume "\<exists>xs ys. cs = xs @ sub @ ys"
      then obtain xs ys where "cs = xs @ sub @ ys" by blast
      then have "c # cs = (c # xs) @ sub @ ys" by simp
      then show ?thesis by blast
    qed
  qed
  then show ?case by (simp only: Contains.simps HasPrefix_iff Cons.IH)
qed

lemma Split_newline_nonempty: "Split_newline s \<noteq> []"
  by (induction s) (auto split: list.splits)

lemma first_line_prefix: "Split_newline s = l # ls \<Longrightarrow> \<exists>ys. s = l @ ys"
proof (induction s arbitrary: l ls)
  case Nil
  then show ?case by simp
next
  case (Cons c cs)
  show ?case
  proof (cases "c = CHR ''\<newline>''")
    case True
    with Cons.prems show ?thesis by simp
  next
    case False
    obtain l0 ls0 where s: "Split_newline cs = l0 # ls0"
      using Split_newline_nonempty [of cs] by (cases "Split_newline cs") auto
    with Cons.IH obtain ys where "cs = l0 @ ys" by blast
    with Cons.prems False s show ?thesis by auto
  qed
qed

lemma line_is_substring: "l \<in> set (Split_newline s) \<Longrightarrow> \<exists>xs ys. s = xs @ l @ ys"
proof (induction s arbitrary: l)
  case Nil
  then show ?case by simp
next
  case (Cons c cs)
  have tail: "\<exists>xs ys. c # cs = xs @ l @ ys" if "l \<in> set (Split_newline cs)"
  proof -
    from Cons.IH that obtain xs ys where "cs = xs @ l @ ys" by blast
    then have "c # cs = (c # xs) @ l @ ys" by simp
    then show ?thesis by blast
  qed
  show ?case
  proof (cases "c = CHR ''\<newline>''")
    case True
    with Cons.prems have "l = [] \<or> l \<in> set (Split_newline cs)" by simp
    then show ?thesis
    proof
      assume "l = []"
      then have "c # cs = [] @ l @ (c # cs)" by simp
      then show ?thesis by blast
    qed (rule tail)
  next
    case False
    show ?thesis
    proof (cases "Split_newline cs")
      case Nil
      with Cons.prems False have "l = [c]" by simp
      then have "c # cs = [] @ l @ cs" by simp
      then show ?thesis by blast
    next
      case (Cons l0 ls0)
      with Cons.prems False have "l = c # l0 \<or> l \<in> set ls0" by simp
      then show ?thesis
      proof
        assume l: "l = c # l0"
        from first_line_prefix [OF Cons] obtain ys where "cs = l0 @ ys" by blast
        with l have "c # cs = [] @ l @ ys" by simp
        then show ?thesis by blast
      next
        assume "l \<in> set ls0"
        with Cons have "l \<in> set (Split_newline cs)" by simp
        then show ?thesis by (rule tail)
      qed
    qed
  qed
qed

lemma marker_line_contains:
  assumes "has_marker_line b"
  shows "\<exists>xs ys. b = xs @ ''data: '' @ ys"
proof -
  from assms obtain l where l: "l \<in> set (Split_newline b)" "HasPrefix l ''data: ''"
    by (auto simp: has_marker_line_def list_ex_iff)
  from l(2) obtain t where t: "l = ''data: '' @ t" unfolding HasPrefix_iff by blast
  from line_is_substring [OF l(1)] obtain xs ys where "b = xs @ l @ ys" by blast
  with t have "b = xs @ ''data: '' @ (t @ ys)" by simp
  then show ?thesis by blast
qed

text \<open>
  Claim C3, as amended. The logged response payload of a captured response is: the
  decoded value if the body bytes decode as JSON; the Stream Reconstructor's result if
  they do not and the bytes \<^verbatim>\<open>data: \<close> occur anywhere in the body (in particular when a
  line begins with them); the raw bytes as text if they do not decode and the bytes
  \<^verbatim>\<open>data: \<close> occur nowhere in the body.
\<close>

theorem logged_response_payload:
  "(has_call_context req \<and> transport env req = Inr resp \<and> read_err (RBody resp) = None \<longrightarrow>
      (\<exists>e. emitted (snd (RoundTrip env req w)) = emitted w @ [e]
           \<and> Response e = AJson (response_payload (unmarshal env) (data (RBody resp)))))
   \<and> (u b = Some v \<longrightarrow> response_payload u b = v)
   \<and> (u b = None \<and> (\<exists>xs ys. b = xs @ ''data: '' @ ys) \<longrightarrow>
        response_payload u b = processStreamingResponse u b)
   \<and> (u b = None \<and> \<not> (\<exists>xs ys. b = xs @ ''data: '' @ ys) \<longrightarrow> response_payload u b = JString b)
   \<and> (has_marker_line b \<longrightarrow> (\<exists>xs ys. b = xs @ ''data: '' @ ys))"
proof (intro conjI impI)
  assume "has_call_context req \<and> transport env req = Inr resp \<and> read_err (RBody resp) = None"
  then have "emitted (snd (RoundTrip env req w)) = emitted w @ [captured_entry env req resp w]"
    by (simp add: RoundTrip_response)
  moreover have "Response (captured_entry env req resp w) =
                   AJson (response_payload (unmarshal env) (data (RBody resp)))"
    by (simp add: captured_entry_def)
  ultimately show "\<exists>e. emitted (snd (RoundTrip env req w)) = emitted w @ [e]
           \<and> Response e = AJson (response_payload (unmarshal env) (data (RBody resp)))"
    by blast
next
  assume "u b = Some v"
  then show "response_payload u b = v" by (simp add: response_payload_def)
next
  assume "u b = None \<and> (\<exists>xs ys. b = xs @ ''data: '' @ ys)"
  then show "response_payload u b = processStreamingResponse u b"
    by (simp add: response_payload_def Contains_iff)
next
  assume "u b = None \<and> \<not> (\<exists>xs ys. b = xs @ ''data: '' @ ys)"
  then show "response_payload u b = JString b"
    by (simp add: response_payload_def Contains_iff)
next
  assume "has_marker_line b"
  then show "\<exists>xs ys. b = xs @ ''data: '' @ ys" by (rule marker_line_contains)
qed

lemma not_Contains_no_occurrence: "\<not> Contains b m \<Longrightarrow> \<not> (\<exists>xs ys. b = xs @ m @ ys)"
  by (simp add: Contains_iff)

lemma example_stream_reconstructed:
  "processStreamingResponse ref_Unmarshal example_stream = simplified_response ''Hello''"
  by code_simp

theorem logged_response_payload_witness:
  \<open>(\<exists>e. emitted (snd (RoundTrip plain_env transport_request demo_world)) = emitted demo_world @ [e]
         \<and> Response e = AJson (JString plain_body))
   \<and> response_payload ref_Unmarshal ''{"ok":true}'' = JObject [(''ok'', JBool True)]
   \<and> response_payload ref_Unmarshal example_stream = simplified_response ''Hello''
   \<and> response_payload ref_Unmarshal midline_body = processStreamingResponse ref_Unmarshal midline_body
   \<and> has_marker_line example_stream\<close>
proof -
  have c: "has_call_context transport_request \<and> transport plain_env transport_request = Inr plain_response
           \<and> read_err (RBody plain_response) = None"
    by (simp add: transport_request_context plain_env_def plain_response_def NopCloser_def)
  have p: "ref_Unmarshal plain_body = None" by code_simp
  have np: "\<not> (\<exists>xs ys. plain_body = xs @ ''data: '' @ ys)"
    by (rule not_Contains_no_occurrence) code_simp
  have j: \<open>ref_Unmarshal ''{"ok":true}'' = Some (JObject [(''ok'', JBool True)])\<close> by code_simp
  have s: "ref_Unmarshal example_stream = None" by code_simp
  have sm: "has_marker_line example_stream" by code_simp
  have m: "ref_Unmarshal midline_body = None" by code_simp
  have mi: "\<exists>xs ys. midline_body = xs @ ''data: '' @ ys"
    unfolding Contains_iff [symmetric] by code_simp
  have "response_payload ref_Unmarshal plain_body = JString plain_body"
    using logged_response_payload [of transport_request plain_env plain_response demo_world ref_Unmarshal plain_body] p np
    by blast
  then have 1: "\<exists>e. emitted (snd (RoundTrip plain_env transport_request demo_world)) = emitted demo_world @ [e]
         \<and> Response e = AJson (JString plain_body)"
    using logged_response_payload [of transport_request plain_env plain_response demo_world] c
    by (simp add: plain_env_def demo_env_def plain_response_def NopCloser_def)
  have 2: \<open>response_payload ref_Unmarshal ''{"ok":true}'' = JObject [(''ok'', JBool True)]\<close>
    using logged_response_payload [of transport_request plain_env plain_response demo_world ref_Unmarshal] j
    by blast
  have "response_payload ref_Unmarshal example_stream = processStreamingResponse ref_Unmarshal example_stream"
    using logged_response_payload [of transport_request plain_env plain_response demo_world ref_Unmarshal example_stream] s sm
    by blast
  then have 3: "response_payload ref_Unmarshal example_stream = simplified_response ''Hello''"
    using example_stream_reconstructed by simp
  have 4: "response_payload ref_Unmarshal midline_body = processStreamingResponse ref_Unmarshal midline_body"
    using logged_response_payload [of transport_request plain_env plain_response demo_world ref_Unmarshal midline_body] m mi
    by blast
  from 1 2 3 4 sm show ?thesis by blast
qed

text \<open>
  The claim as stated, with the marker being a line that begins with \<^verbatim>\<open>data: \<close>, fails:
  a body that is not JSON and has the bytes in the middle of its only line is logged as
  a reconstruction with empty content, not as text.
\<close>

theorem midline_marker_counterexample:
  "ref_Unmarshal midline_body = None
   \<and> \<not> has_marker_line midline_body
   \<and> response_payload ref_Unmarshal midline_body = simplified_response []
   \<and> response_payload ref_Unmarshal midline_body \<noteq> JString midline_body
   \<and> response_payload ref_Unmarshal midline_body \<noteq> spec_response_payload ref_Unmarshal midline_body"
  by code_simp

section \<open>Authentication\<close>

text \<open>
  Claim C5, as amended. If a non-empty API key is configured, every request whose
  \<^verbatim>\<open>X-API-Key\<close> header is missing or differs from it is answered with status 401 and the
  process state is left as it was: nothing is forwarded, no record is emitted, the clock
  is not read and no context is built. If no key is configured, every request whose body
  is read successfully is forwarded, whatever its headers, which are forwarded unchanged.
\<close>

theorem gatekeeper_authentication:
  "(apiKey s \<noteq> [] \<and> Get (Header r) ''X-API-Key'' \<noteq> apiKey s \<longrightarrow>
      ServeHTTP env s r w = (Written (http_Error ''Unauthorized'' 401), w))
   \<and> (apiKey s \<noteq> [] \<and> Header r ''X-Api-Key'' = [] \<longrightarrow>
      ServeHTTP env s r w = (Written (http_Error ''Unauthorized'' 401), w))
   \<and> Status (http_Error ''Unauthorized'' 401) = 401
   \<and> (apiKey s = [] \<and> read_err (Body r) = None \<longrightarrow>
      upstream_calls (snd (ServeHTTP env s r w)) = upstream_calls w @ [Director s (annotated env r w)]
      \<and> Header (Director s (annotated env r w)) = Header r)"
proof (intro conjI impI)
  assume "apiKey s \<noteq> [] \<and> Get (Header r) ''X-API-Key'' \<noteq> apiKey s"
  then show "ServeHTTP env s r w = (Written (http_Error ''Unauthorized'' 401), w)"
    by (simp add: ServeHTTP_def)
next
  assume "apiKey s \<noteq> [] \<and> Header r ''X-Api-Key'' = []"
  then have "apiKey s \<noteq> [] \<and> Get (Header r) ''X-API-Key'' \<noteq> apiKey s"
    by (auto simp: Get_def canonical_api_key)
  then show "ServeHTTP env s r w = (Written (http_Error ''Unauthorized'' 401), w)"
    by (simp add: ServeHTTP_def)
next
  show "Status (http_Error ''Unauthorized'' 401) = 401" by (simp add: http_Error_def)
next
  assume a: "apiKey s = [] \<and> read_err (Body r) = None"
  then have "authorised s r" by (simp add: authorised_def)
  with a have "ServeHTTP env s r w = ReverseProxy_ServeHTTP env s (annotated env r w) (gate_world env r w)"
    by (simp add: ServeHTTP_forward)
  then show "upstream_calls (snd (ServeHTTP env s r w)) = upstream_calls w @ [Director s (annotated env r w)]"
    using annotated_has_call_context by (simp add: ReverseProxy_upstream_calls gate_world_fields)
next
  show "Header (Director s (annotated env r w)) = Header r"
    by (simp add: Director_def originalDirector_def annotated_def)
qed

theorem gatekeeper_authentication_witness:
  "apiKey demo_server \<noteq> []
   \<and> Get (Header wrong_key_request) ''X-API-Key'' \<noteq> apiKey demo_server
   \<and> ServeHTTP demo_env demo_server wrong_key_request demo_world =
       (Written (http_Error ''Unauthorized'' 401), demo_world)
   \<and> Header keyless_request ''X-Api-Key'' = []
   \<and> ServeHTTP demo_env demo_server keyless_request demo_world =
       (Written (http_Error ''Unauthorized'' 401), demo_world)
   \<and> apiKey open_server = [] \<and> read_err (Body keyless_request) = None
   \<and> upstream_calls (snd (ServeHTTP demo_env open_server keyless_request demo_world)) =
       [Director open_server (annotated demo_env keyless_request demo_world)]"
proof -
  have k: "apiKey demo_server \<noteq> []" "apiKey open_server = []"
    by (simp_all add: demo_server_def open_server_def)
  have g: "Get (Header wrong_key_request) ''X-API-Key'' \<noteq> apiKey demo_server"
    by (simp add: Get_def canonical_api_key wrong_key_request_def demo_server_def)
  have h: "Header keyless_request ''X-Api-Key'' = []" "read_err (Body keyless_request) = None"
    by (simp_all add: keyless_request_def demo_request_def NopCloser_def)
  have u: "upstream_calls demo_world = []" by (simp add: demo_world_def)
  from gatekeeper_authentication [of demo_server wrong_key_request demo_env demo_world] k g
  have 1: "ServeHTTP demo_env demo_server wrong_key_request demo_world =
       (Written (http_Error ''Unauthorized'' 401), demo_world)" by blast
  from gatekeeper_authentication [of demo_server keyless_request demo_env demo_world] k h
  have 2: "ServeHTTP demo_env demo_server keyless_request demo_world =
       (Written (http_Error ''Unauthorized'' 401), demo_world)" by blast
  from gatekeeper_authentication [of open_server keyless_request demo_env demo_world] k h u
  have 3: "upstream_calls (snd (ServeHTTP demo_env open_server keyless_request demo_world)) =
       [Director open_server (annotated demo_env keyless_request demo_world)]" by simp
  from k g h 1 2 3 show ?thesis by blast
qed

text \<open>
  The claim without the amendment fails: no key is configured, the reading of the body
  fails, and the request is answered with status 500 and not forwarded.
\<close>

theorem unreadable_body_counterexample:
  "apiKey open_server = []
   \<and> ServeHTTP demo_env open_server broken_request demo_world =
       (Written (http_Error ''Error reading request body'' 500), demo_world)
   \<and> upstream_calls (snd (ServeHTTP demo_env open_server broken_request demo_world)) = []"
proof -
  have k: "apiKey open_server = []" by (simp add: open_server_def demo_server_def)
  then have a: "authorised open_server broken_request" by (simp add: authorised_def)
  have b: "read_err (Body broken_request) = Some ''connection reset by peer''"
    by (simp add: broken_request_def)
  from ServeHTTP_read_error [OF a b, of demo_env demo_world] k show ?thesis
    by (simp add: demo_world_def)
qed

section \<open>Logging failures stay in the Log Sink\<close>

lemma RoundTrip_fst_transport:
  "transport env' = transport env \<Longrightarrow> fst (RoundTrip env' req w') = fst (RoundTrip env req w)"
  by (simp add: RoundTrip_def Let_def ReadAll_def Now_def split: option.splits sum.splits)

lemma ReverseProxy_fst:
  "fst (ReverseProxy_ServeHTTP env s q w) =
     (case fst (RoundTrip env (Director s q) w) of
        Inl (Panic p) \<Rightarrow> Panicked p
      | Inl (Err e) \<Rightarrow> Written \<lparr>Status = 502, CHeader = (\<lambda>k. []), CBody = []\<rparr>
      | Inr resp \<Rightarrow>
          Written \<lparr>Status = StatusCode resp, CHeader = RHeader resp, CBody = data (RBody resp)\<rparr>)"
  by (cases "RoundTrip env (Director s q) w")
     (simp add: ReverseProxy_ServeHTTP_def split: sum.splits failure.splits)

lemma ServeHTTP_fst_logger:
  "fst (ServeHTTP (env\<lparr>marshal := m\<rparr>) s r (w\<lparr>logger := l\<rparr>)) = fst (ServeHTTP env s r w)"
proof (cases "authorised s r")
  case False
  then show ?thesis by (simp add: ServeHTTP_unauthorised)
next
  case True
  show ?thesis
  proof (cases "read_err (Body r)")
    case (Some e)
    with True show ?thesis by (simp add: ServeHTTP_read_error)
  next
    case None
    have "annotated (env\<lparr>marshal := m\<rparr>) r (w\<lparr>logger := l\<rparr>) = annotated env r w"
      by (simp add: annotated_def)
    moreover have "transport (env\<lparr>marshal := m\<rparr>) = transport env" by simp
    ultimately show ?thesis
      using True None
      by (simp add: ServeHTTP_forward ReverseProxy_fst
          RoundTrip_fst_transport [of "env\<lparr>marshal := m\<rparr>" env _ _ "gate_world env r w"])
  qed
qed

lemma Encode_failure_keeps_file: "Encode env fo e = (fo', Some err) \<Longrightarrow> fo' = fo"
  by (auto simp: Encode_def File_Write_def split: sum.splits option.splits if_splits)

text \<open>
  Claim C6. What the handler writes to the client, and what \<^verbatim>\<open>RoundTrip\<close> returns, are
  identical for every encoder and every logger state, so they are the same whether the
  emission of the log record succeeds or fails; and when the encoding or the write fails,
  \<^verbatim>\<open>LogRequest\<close> changes nothing but the process log, to which it adds the error.
\<close>

theorem logging_failure_not_propagated:
  "fst (ServeHTTP (env\<lparr>marshal := m\<rparr>) s r (w\<lparr>logger := l\<rparr>)) = fst (ServeHTTP env s r w)
   \<and> fst (RoundTrip (env\<lparr>marshal := m\<rparr>) req (w\<lparr>logger := l\<rparr>)) = fst (RoundTrip env req w)
   \<and> (Encode env (file_handle (logger w)) e = (fo, Some err) \<longrightarrow>
        LogRequest env e w =
          w\<lparr>emitted := emitted w @ [e], stdlog := stdlog w @ [ErrorEncodingLogEntry err]\<rparr>)"
proof (intro conjI impI)
  show "fst (ServeHTTP (env\<lparr>marshal := m\<rparr>) s r (w\<lparr>logger := l\<rparr>)) = fst (ServeHTTP env s r w)"
    by (rule ServeHTTP_fst_logger)
  show "fst (RoundTrip (env\<lparr>marshal := m\<rparr>) req (w\<lparr>logger := l\<rparr>)) = fst (RoundTrip env req w)"
    by (rule RoundTrip_fst_transport) simp
  assume f: "Encode env (file_handle (logger w)) e = (fo, Some err)"
  then have "fo = file_handle (logger w)" by (rule Encode_failure_keeps_file)
  with f show "LogRequest env e w =
          w\<lparr>emitted := emitted w @ [e], stdlog := stdlog w @ [ErrorEncodingLogEntry err]\<rparr>"
    by (simp add: LogRequest_def Let_def Printf_def)
qed

theorem logging_failure_not_propagated_witness:
  "Encode demo_env (file_handle (logger faulty_world)) demo_entry =
     (file_handle (logger faulty_world), Some ''no space left on device'')
   \<and> LogRequest demo_env demo_entry faulty_world =
       faulty_world\<lparr>emitted := emitted faulty_world @ [demo_entry],
                    stdlog := stdlog faulty_world @ [ErrorEncodingLogEntry ''no space left on device'']\<rparr>
   \<and> fst (ServeHTTP demo_env demo_server demo_request faulty_world) =
       fst (ServeHTTP demo_env demo_server demo_request demo_world)"
proof -
  have e: "Encode demo_env (file_handle (logger faulty_world)) demo_entry =
     (file_handle (logger faulty_world), Some ''no space left on device'')"
    by (simp add: Encode_def File_Write_def demo_env_def faulty_world_def demo_world_def demo_file_def)
  have w: "faulty_world = demo_world\<lparr>logger := logger faulty_world\<rparr>"
    by (simp add: faulty_world_def)
  have m: "demo_env = demo_env\<lparr>marshal := marshal demo_env\<rparr>" by simp
  from logging_failure_not_propagated
    [where env = demo_env and m = "marshal demo_env" and s = demo_server and r = demo_request
       and w = demo_world and l = "logger faulty_world"]
  have 1: "fst (ServeHTTP demo_env demo_server demo_request faulty_world) =
       fst (ServeHTTP demo_env demo_server demo_request demo_world)"
    using w m by simp
  from logging_failure_not_propagated [where env = demo_env and w = faulty_world] e
  have 2: "LogRequest demo_env demo_entry faulty_world =
       faulty_world\<lparr>emitted := emitted faulty_world @ [demo_entry],
                    stdlog := stdlog faulty_world @ [ErrorEncodingLogEntry ''no space left on device'']\<rparr>"
    by blast
  from e 1 2 show ?thesis by blast
qed

section \<open>The correlation id\<close>

lemma canonical_correlation_headers:
  "CanonicalMIMEHeaderKey ''apim-request-id'' = ''Apim-Request-Id''"
  "CanonicalMIMEHeaderKey ''x-ms-request-id'' = ''X-Ms-Request-Id''"
  "CanonicalMIMEHeaderKey ''x-ms-correlation-request-id'' = ''X-Ms-Correlation-Request-Id''"
  by code_simp+

lemma first_present_agrees:
  assumes "\<forall>k\<in>set correlation_headers. h (CanonicalMIMEHeaderKey k) \<noteq> [] \<longrightarrow> Get h k \<noteq> []"
  shows "correlation_id h = first_present h correlation_headers"
proof -
  have g: "Get h k = [] \<Longrightarrow> k \<in> set correlation_headers \<Longrightarrow> h (CanonicalMIMEHeaderKey k) = []" for k
    using assms by blast
  have a: "h (CanonicalMIMEHeaderKey k) = [] \<Longrightarrow> Get h k = []" for k
    by (simp add: Get_def)
  show ?thesis
    using g [of "''apim-request-id''"] g [of "''x-ms-request-id''"] g [of "''x-ms-correlation-request-id''"]
      a [of "''apim-request-id''"] a [of "''x-ms-request-id''"] a [of "''x-ms-correlation-request-id''"]
    by (auto simp: correlation_id_def correlation_headers_def Let_def)
qed

lemma correlation_id_first_nonempty:
  "correlation_id h = first_nonempty (map (Get h) correlation_headers)"
  by (simp add: correlation_id_def correlation_headers_def Let_def)

text \<open>
  Claim C7, as amended. The correlation id of the record is the first value that is not
  the empty string among the values of \<^verbatim>\<open>apim-request-id\<close>, \<^verbatim>\<open>x-ms-request-id\<close> and
  \<^verbatim>\<open>x-ms-correlation-request-id\<close>, in that order; it is empty when none of them has a
  non-empty value, in particular when all three headers are absent. It is the value of
  the first present header whenever no present header among the three has an empty value.
\<close>

theorem correlation_id_priority:
  "correlation_id h = first_nonempty (map (Get h) correlation_headers)
   \<and> (h ''Apim-Request-Id'' = [] \<and> h ''X-Ms-Request-Id'' = []
        \<and> h ''X-Ms-Correlation-Request-Id'' = [] \<longrightarrow> correlation_id h = [])
   \<and> (Get h ''apim-request-id'' \<noteq> [] \<longrightarrow> correlation_id h = Get h ''apim-request-id'')
   \<and> (Get h ''apim-request-id'' = [] \<and> Get h ''x-ms-request-id'' \<noteq> [] \<longrightarrow>
        correlation_id h = Get h ''x-ms-request-id'')
   \<and> (Get h ''apim-request-id'' = [] \<and> Get h ''x-ms-request-id'' = [] \<longrightarrow>
        correlation_id h = Get h ''x-ms-correlation-request-id'')
   \<and> ((\<forall>k\<in>set correlation_headers. h (CanonicalMIMEHeaderKey k) \<noteq> [] \<longrightarrow> Get h k \<noteq> []) \<longrightarrow>
        correlation_id h = first_present h correlation_headers)
   \<and> (has_call_context req \<and> transport env req = Inr resp \<and> read_err (RBody resp) = None \<longrightarrow>
        (\<exists>e. emitted (snd (RoundTrip env req w)) = emitted w @ [e]
             \<and> CorrelationID e = correlation_id (RHeader resp)))"
proof (intro conjI impI)
  show "correlation_id h = first_nonempty (map (Get h) correlation_headers)"
    by (rule correlation_id_first_nonempty)
next
  assume "\<forall>k\<in>set correlation_headers. h (CanonicalMIMEHeaderKey k) \<noteq> [] \<longrightarrow> Get h k \<noteq> []"
  then show "correlation_id h = first_present h correlation_headers"
    by (rule first_present_agrees)
next
  assume "h ''Apim-Request-Id'' = [] \<and> h ''X-Ms-Request-Id'' = []
        \<and> h ''X-Ms-Correlation-Request-Id'' = []"
  then show "correlation_id h = []"
    by (simp add: correlation_id_def Let_def Get_def canonical_correlation_headers)
next
  assume "Get h ''apim-request-id'' \<noteq> []"
  then show "correlation_id h = Get h ''apim-request-id''"
    by (simp add: correlation_id_def Let_def)
next
  assume "Get h ''apim-request-id'' = [] \<and> Get h ''x-ms-request-id'' \<noteq> []"
  then show "correlation_id h = Get h ''x-ms-request-id''"
    by (simp add: correlation_id_def Let_def)
next
  assume "Get h ''apim-request-id'' = [] \<and> Get h ''x-ms-request-id'' = []"
  then show "correlation_id h = Get h ''x-ms-correlation-request-id''"
    by (simp add: correlation_id_def Let_def)
next
  assume "has_call_context req \<and> transport env req = Inr resp \<and> read_err (RBody resp) = None"
  then have "emitted (snd (RoundTrip env req w)) = emitted w @ [captured_entry env req resp w]"
    by (simp add: RoundTrip_response)
  moreover have "CorrelationID (captured_entry env req resp w) = correlation_id (RHeader resp)"
    by (simp add: captured_entry_def)
  ultimately show "\<exists>e. emitted (snd (RoundTrip env req w)) = emitted w @ [e]
             \<and> CorrelationID e = correlation_id (RHeader resp)"
    by blast
qed

theorem correlation_id_priority_witness:
  "Get fallback_headers ''apim-request-id'' = []
   \<and> Get fallback_headers ''x-ms-request-id'' = ''r-2''
   \<and> correlation_id fallback_headers = ''r-2''
   \<and> correlation_id (\<lambda>k. []) = []
   \<and> first_present fallback_headers correlation_headers = ''r-2''
   \<and> (\<exists>e. emitted (snd (RoundTrip fallback_env transport_request demo_world)) = emitted demo_world @ [e]
          \<and> CorrelationID e = ''r-2'')"
proof -
  have g: "Get fallback_headers ''apim-request-id'' = []"
    "Get fallback_headers ''x-ms-request-id'' = ''r-2''"
    by (simp_all add: Get_def canonical_correlation_headers fallback_headers_def)
  have n: "Get fallback_headers ''x-ms-request-id'' \<noteq> []" using g by simp
  from correlation_id_priority [of fallback_headers] g(1) n
  have "correlation_id fallback_headers = Get fallback_headers ''x-ms-request-id''" by blast
  then have 1: "correlation_id fallback_headers = ''r-2''" using g(2) by simp
  from correlation_id_priority [of "\<lambda>k. []"]
  have 2: "correlation_id (\<lambda>k. []) = []" by blast
  have c: "has_call_context transport_request
           \<and> transport fallback_env transport_request = Inr fallback_response
           \<and> read_err (RBody fallback_response) = None"
    by (simp add: transport_request_context fallback_env_def fallback_response_def
        demo_response_def NopCloser_def)
  have h: "RHeader fallback_response = fallback_headers"
    by (simp add: fallback_response_def)
  from correlation_id_priority [of _ transport_request fallback_env fallback_response demo_world] c
  have 3: "\<exists>e. emitted (snd (RoundTrip fallback_env transport_request demo_world)) = emitted demo_world @ [e]
          \<and> CorrelationID e = ''r-2''"
    unfolding h 1 by blast
  have p: "\<forall>k\<in>set correlation_headers.
             fallback_headers (CanonicalMIMEHeaderKey k) \<noteq> [] \<longrightarrow> Get fallback_headers k \<noteq> []"
    by (simp add: correlation_headers_def canonical_correlation_headers Get_def fallback_headers_def)
  from correlation_id_priority [of fallback_headers] p
  have "correlation_id fallback_headers = first_present fallback_headers correlation_headers"
    by blast
  with 1 have 4: "first_present fallback_headers correlation_headers = ''r-2''" by simp
  from g 1 2 3 4 show ?thesis by blast
qed

text \<open>
  The claim as stated fails: the primary header is present with an empty value, so the
  first present header has the empty value, and the record takes the fallback's value.
\<close>

theorem blank_primary_counterexample:
  "blank_primary (CanonicalMIMEHeaderKey ''apim-request-id'') = [[]]
   \<and> first_present blank_primary correlation_headers = []
   \<and> correlation_id blank_primary = ''abc''"
  by (simp add: blank_primary_def correlation_headers_def canonical_correlation_headers
      correlation_id_def Get_def Let_def)

section \<open>A missing Call Context\<close>

text \<open>
  Claim C8, as amended. If the path, the method or the start time is absent from the
  request context, \<^verbatim>\<open>RoundTrip\<close> fails the request with a panic before anything else
  happens (no upstream call, no record, state unchanged), and the handler ends with that
  panic. An absent request body is tolerated: the exchange proceeds and the record
  carries a null request body.
\<close>

theorem missing_call_context:
  "(map_of (Ctx req) pathKey = None \<or> map_of (Ctx req) methodKey = None
      \<or> map_of (Ctx req) startTimeKey = None \<longrightarrow>
      (\<exists>p. RoundTrip env req w = (Inl (Panic p), w)))
   \<and> ((\<exists>p. RoundTrip env (Director s q) w = (Inl (Panic p), w)) \<longrightarrow>
      (\<exists>p. ReverseProxy_ServeHTTP env s q w = (Panicked p, w)))
   \<and> (map_of (Ctx req) requestBodyKey = None \<and> has_call_context req
        \<and> transport env req = Inr resp \<and> read_err (RBody resp) = None \<longrightarrow>
      fst (RoundTrip env req w) = Inr (resp\<lparr>RBody := NopCloser (data (RBody resp))\<rparr>)
      \<and> (\<exists>e. emitted (snd (RoundTrip env req w)) = emitted w @ [e] \<and> RequestBody e = AJson JNull))"
proof (intro conjI impI)
  assume "map_of (Ctx req) pathKey = None \<or> map_of (Ctx req) methodKey = None
      \<or> map_of (Ctx req) startTimeKey = None"
  then have "\<not> has_call_context req"
    by (auto simp: has_call_context_def Value_def assert_string_def assert_Time_def)
  then show "\<exists>p. RoundTrip env req w = (Inl (Panic p), w)" by (rule RoundTrip_panic)
next
  assume "\<exists>p. RoundTrip env (Director s q) w = (Inl (Panic p), w)"
  then show "\<exists>p. ReverseProxy_ServeHTTP env s q w = (Panicked p, w)"
    by (auto simp: ReverseProxy_ServeHTTP_def)
next
  assume a: "map_of (Ctx req) requestBodyKey = None \<and> has_call_context req
        \<and> transport env req = Inr resp \<and> read_err (RBody resp) = None"
  then show "fst (RoundTrip env req w) = Inr (resp\<lparr>RBody := NopCloser (data (RBody resp))\<rparr>)"
    by (simp add: RoundTrip_response)
  from a have "emitted (snd (RoundTrip env req w)) = emitted w @ [captured_entry env req resp w]"
    by (simp add: RoundTrip_response)
  moreover from a have "RequestBody (captured_entry env req resp w) = AJson JNull"
    by (simp add: captured_entry_def Value_def)
  ultimately show "\<exists>e. emitted (snd (RoundTrip env req w)) = emitted w @ [e] \<and> RequestBody e = AJson JNull"
    by blast
qed

lemma pathless_request_path: "map_of (Ctx pathless_request) pathKey = None"
  using context_keys_distinct by (simp add: pathless_request_def)

lemma bare_request_context:
  "map_of (Ctx bare_request) requestBodyKey = None" "has_call_context bare_request"
  using context_keys_distinct
  by (simp_all add: bare_request_def has_call_context_def Value_def assert_string_def assert_Time_def)

theorem missing_call_context_witness:
  "map_of (Ctx pathless_request) pathKey = None
   \<and> (\<exists>p. RoundTrip demo_env pathless_request demo_world = (Inl (Panic p), demo_world))
   \<and> map_of (Ctx bare_request) requestBodyKey = None
   \<and> has_call_context bare_request
   \<and> (\<exists>e. emitted (snd (RoundTrip demo_env bare_request demo_world)) = emitted demo_world @ [e]
          \<and> RequestBody e = AJson JNull)"
proof -
  from missing_call_context [of pathless_request demo_env demo_world] pathless_request_path
  have 1: "\<exists>p. RoundTrip demo_env pathless_request demo_world = (Inl (Panic p), demo_world)"
    by blast
  have c: "transport demo_env bare_request = Inr demo_response \<and> read_err (RBody demo_response) = None"
    by (simp add: demo_env_def demo_response_def NopCloser_def)
  from missing_call_context [of bare_request demo_env demo_world _ _ demo_response] bare_request_context c
  have 2: "\<exists>e. emitted (snd (RoundTrip demo_env bare_request demo_world)) = emitted demo_world @ [e]
          \<and> RequestBody e = AJson JNull"
    by blast
  from 1 2 pathless_request_path bare_request_context show ?thesis by blast
qed

text \<open>
  The claim as stated fails for the request body: without it in the context the
  round-trip succeeds and the record is written.
\<close>

theorem absent_request_body_counterexample:
  "map_of (Ctx bare_request) requestBodyKey = None
   \<and> fst (RoundTrip demo_env bare_request demo_world) =
       Inr (demo_response\<lparr>RBody := NopCloser (data (RBody demo_response))\<rparr>)
   \<and> stdlog (snd (RoundTrip demo_env bare_request demo_world)) = [Logged ''POST'' ''/'' 1]"
proof -
  have c: "transport demo_env bare_request = Inr demo_response" "read_err (RBody demo_response) = None"
    by (simp_all add: demo_env_def demo_response_def NopCloser_def)
  have 1: "fst (RoundTrip demo_env bare_request demo_world) =
       Inr (demo_response\<lparr>RBody := NopCloser (data (RBody demo_response))\<rparr>)"
    using bare_request_context(2) c by (rule RoundTrip_response)
  have 2: "stdlog (snd (RoundTrip demo_env bare_request demo_world)) = [Logged ''POST'' ''/'' 1]"
    using context_keys_distinct
    by (simp add: RoundTrip_def Let_def ReadAll_def Now_def Printf_def LogRequest_def Encode_def
        File_Write_def bare_request_def Value_def assert_string_def assert_Time_def
        demo_env_def demo_response_def NopCloser_def demo_world_def demo_file_def)
  from 1 2 bare_request_context(1) show ?thesis by blast
qed

section \<open>Closing the Log Sink\<close>

lemma Close_nil: "file_handle (logger w) = None \<Longrightarrow> Close w = w"
  by (simp add: Close_def)

lemma Close_closes:
  "file_handle (logger w) = Some f \<Longrightarrow>
   \<exists>f'. file_handle (logger (Close w)) = Some f' \<and> closed f' \<and> contents f' = contents f"
  by (auto simp: Close_def File_Close_def Printf_def split: option.splits)

lemma Close_closed:
  "file_handle (logger w) = Some f \<Longrightarrow> closed f \<Longrightarrow>
   Close w = Printf (ErrorClosingLogFile ''file already closed'') w"
  by (simp add: Close_def File_Close_def Printf_def)

text \<open>
  Claim C9, as amended. A second \<^verbatim>\<open>Close\<close> leaves the logger, that is the handle and the
  contents of the destination, as the first \<^verbatim>\<open>Close\<close> left it. Without a file it has no
  effect at all; with a file its one further effect is a line in the process log
  reporting that the file is already closed.
\<close>

theorem Close_twice:
  "logger (Close (Close w)) = logger (Close w)
   \<and> (file_handle (logger w) = None \<longrightarrow> Close (Close w) = Close w)
   \<and> (file_handle (logger w) \<noteq> None \<longrightarrow>
        Close (Close w) = Printf (ErrorClosingLogFile ''file already closed'') (Close w))"
proof (cases "file_handle (logger w)")
  case None
  then show ?thesis by (simp add: Close_nil)
next
  case (Some f)
  from Close_closes [OF Some] obtain f' where
    f': "file_handle (logger (Close w)) = Some f'" "closed f'" by blast
  then have c: "Close (Close w) = Printf (ErrorClosingLogFile ''file already closed'') (Close w)"
    by (rule Close_closed)
  then have "logger (Close (Close w)) = logger (Close w)" by (simp add: Printf_def)
  with c Some show ?thesis by simp
qed

theorem Close_twice_witness:
  "file_handle (logger demo_world) \<noteq> None
   \<and> Close (Close demo_world) = Printf (ErrorClosingLogFile ''file already closed'') (Close demo_world)
   \<and> logger (Close (Close demo_world)) = logger (Close demo_world)
   \<and> file_handle (logger (demo_world\<lparr>logger := \<lparr>file_handle = None\<rparr>\<rparr>)) = None
   \<and> Close (Close (demo_world\<lparr>logger := \<lparr>file_handle = None\<rparr>\<rparr>)) =
       Close (demo_world\<lparr>logger := \<lparr>file_handle = None\<rparr>\<rparr>)"
proof -
  have a: "file_handle (logger demo_world) \<noteq> None" by (simp add: demo_world_def)
  have b: "file_handle (logger (demo_world\<lparr>logger := \<lparr>file_handle = None\<rparr>\<rparr>)) = None" by simp
  from Close_twice [of demo_world] a
    Close_twice [of "demo_world\<lparr>logger := \<lparr>file_handle = None\<rparr>\<rparr>"] b
  show ?thesis by blast
qed

text \<open>
  The claim as stated fails: the second call has a further effect, the line it adds to
  the process log.
\<close>

theorem second_Close_counterexample:
  "stdlog (Close demo_world) = []
   \<and> stdlog (Close (Close demo_world)) = [ErrorClosingLogFile ''file already closed'']
   \<and> Close (Close demo_world) \<noteq> Close demo_world"
proof -
  have 1: "stdlog (Close demo_world) = []"
    by (simp add: Close_def File_Close_def demo_world_def demo_file_def)
  have 2: "stdlog (Close (Close demo_world)) = [ErrorClosingLogFile ''file already closed'']"
    by (simp add: Close_def File_Close_def Printf_def demo_world_def demo_file_def)
  from 1 2 have "Close (Close demo_world) \<noteq> Close demo_world" by auto
  with 1 2 show ?thesis by blast
qed

end
